theory Spec2Isabelle
  imports Complex_Main
begin

section \<open>JavaScript value conventions\<close>

text \<open>
  JavaScript numbers are modelled as mathematical reals; an optional field is an
  \<open>option\<close>. The operator
  \<^verbatim>\<open>x || d\<close> yields \<open>d\<close> when \<open>x\<close> is falsy: absent, the number zero or the
  empty string.
\<close>

definition or_real :: "real option \<Rightarrow> real \<Rightarrow> real" where
  "or_real x d = (case x of None \<Rightarrow> d | Some v \<Rightarrow> if v = 0 then d else v)"

definition or_str :: "string option \<Rightarrow> string option \<Rightarrow> string option" where
  "or_str x d = (case x of None \<Rightarrow> d | Some s \<Rightarrow> if s = [] then d else Some s)"

definition or_null :: "real option \<Rightarrow> real option" where
  "or_null x = (case x of None \<Rightarrow> None | Some v \<Rightarrow> if v = 0 then None else Some v)"

definition or_false :: "bool option \<Rightarrow> bool" where
  "or_false x = (case x of None \<Rightarrow> False | Some b \<Rightarrow> b)"

text \<open>\<^verbatim>\<open>Math.round\<close>: the nearest integer, halves rounded up.\<close>

definition Math_round :: "real \<Rightarrow> int" where
  "Math_round x = \<lfloor>x + 1 / 2\<rfloor>"

section \<open>Incremental activity tracker (whale watcher)\<close>

text \<open>
  A time as \<^verbatim>\<open>getTime()\<close> gives it: a number of milliseconds, or \<^verbatim>\<open>NaN\<close>. Every
  comparison with \<^verbatim>\<open>NaN\<close> is false, \<^verbatim>\<open>Math.max\<close> is \<^verbatim>\<open>NaN\<close> as soon as one
  argument is, and \<^verbatim>\<open>NaN || d\<close> is \<open>d\<close>.
\<close>

datatype jstime = NaN | Ms real

text \<open>
  The \<^verbatim>\<open>timestamp\<close> field of a feed record as delivered: a number, \<^verbatim>\<open>null\<close>, no
  field at all, or a value of another kind (a date string, say), given with the time
  that \<^verbatim>\<open>new Date\<close> makes of it.
\<close>

datatype stamp = Number real | Other jstime | Null | Missing

definition ToInteger :: "real \<Rightarrow> real" where
  "ToInteger x = real_of_int (if 0 \<le> x then \<lfloor>x\<rfloor> else \<lceil>x\<rceil>)"

text \<open>
  \<^verbatim>\<open>new Date(v).getTime()\<close>: a number beyond 8.64e15 in absolute value is no time,
  another one is truncated to an integer; \<^verbatim>\<open>null\<close> converts to 0 and a missing value to
  \<^verbatim>\<open>NaN\<close>.
\<close>

fun getTime :: "stamp \<Rightarrow> jstime" where
  "getTime (Number x) = (if \<bar>x\<bar> > 8640000000000000 then NaN else Ms (ToInteger x))"
| "getTime (Other p) = p"
| "getTime Null = Ms 0"
| "getTime Missing = NaN"

text \<open>\<^verbatim>\<open>t <= s\<close> for a time \<open>t\<close> and a number \<open>s\<close>.\<close>

fun le_time :: "jstime \<Rightarrow> real \<Rightarrow> bool" where
  "le_time NaN s = False"
| "le_time (Ms x) s = (x \<le> s)"

fun max_time :: "jstime \<Rightarrow> jstime \<Rightarrow> jstime" where
  "max_time (Ms a) (Ms b) = Ms (max a b)"
| "max_time NaN b = NaN"
| "max_time (Ms a) NaN = NaN"

definition or_time :: "jstime option \<Rightarrow> real \<Rightarrow> real" where
  "or_time x d =
     (case x of None \<Rightarrow> d | Some NaN \<Rightarrow> d | Some (Ms v) \<Rightarrow> if v = 0 then d else v)"

text \<open>One record of the activity feed.\<close>

record trade =
  timestamp :: stamp
  usdcSize :: "real option"
  size_t :: "real option"
  side :: "string option"
  type_t :: "string option"
  outcome :: "string option"
  title :: "string option"
  eventTitle :: "string option"
  market :: "string option"
  slug :: "string option"
  price :: "real option"

text \<open>An entry of \<^verbatim>\<open>state.watchlist\<close>.\<close>

record watched =
  wallet :: string
  userName :: string
  pnl_w :: "real option"
  volume_w :: "real option"
  isEdgeTrader :: "bool option"
  edgeScore_w :: "real option"

text \<open>The object pushed onto \<^verbatim>\<open>newTrades\<close>; it carries the timestamp as delivered.\<close>

record alert =
  alert_wallet :: string
  alert_userName :: string
  alert_side :: string
  alert_outcome :: "string option"
  alert_market :: "string option"
  alert_size :: real
  alert_price :: "real option"
  alert_timestamp :: stamp
  traderPnl :: "real option"
  traderVolume :: "real option"
  alert_isEdgeTrader :: bool
  alert_edgeScore :: "real option"

record watch_state =
  lastSeen :: "string \<rightharpoonup> jstime"
  watchlist :: "watched list"
  initialized :: "real option"

record config =
  minTradeSize :: real
  watchCount :: nat
  pollInterval :: nat

definition CONFIG :: config where
  "CONFIG = \<lparr>minTradeSize = 10000, watchCount = 50, pollInterval = 60000\<rparr>"

text \<open>
  What \<^verbatim>\<open>await fetchActivity(...)\<close> produces: it throws (a failed response), it
  yields no list (\<^verbatim>\<open>null\<close>), or it yields a page of records.
\<close>

datatype fetch_result = Threw | Absent | Page "trade list"

definition trade_size :: "trade \<Rightarrow> real" where
  "trade_size t = \<bar>or_real (usdcSize t) (or_real (size_t t) 0)\<bar>"

definition trade_side :: "trade \<Rightarrow> string" where
  "trade_side t =
     (case or_str (side t) None of
        Some s \<Rightarrow> s
      | None \<Rightarrow> if type_t t = Some ''buy'' then ''BUY'' else ''SELL'')"

subsection \<open>\<^verbatim>\<open>src/whale-watcher.js\<close>\<close>

definition tradeTime :: "trade \<Rightarrow> jstime" where
  "tradeTime t = getTime (timestamp t)"

definition mkAlert :: "watched \<Rightarrow> trade \<Rightarrow> alert" where
  "mkAlert trader t =
     \<lparr>alert_wallet = wallet trader,
      alert_userName = userName trader,
      alert_side = trade_side t,
      alert_outcome = or_str (outcome t) (title t),
      alert_market = or_str (eventTitle t) (or_str (market t) (slug t)),
      alert_size = trade_size t,
      alert_price = price t,
      alert_timestamp = timestamp t,
      traderPnl = pnl_w trader,
      traderVolume = volume_w trader,
      alert_isEdgeTrader = or_false (isEdgeTrader trader),
      alert_edgeScore = or_null (edgeScore_w trader)\<rparr>"

text \<open>The \<^verbatim>\<open>for (const trade of activity)\<close> loop with its two \<^verbatim>\<open>continue\<close>s.\<close>

fun collectNew :: "config \<Rightarrow> watched \<Rightarrow> real \<Rightarrow> trade list \<Rightarrow> alert list" where
  "collectNew cfg trader seen [] = []"
| "collectNew cfg trader seen (t # ts) =
     (if le_time (tradeTime t) seen then collectNew cfg trader seen ts
      else if trade_size t < minTradeSize cfg then collectNew cfg trader seen ts
      else mkAlert trader t # collectNew cfg trader seen ts)"

text \<open>\<^verbatim>\<open>Math.max(...xs)\<close> on a list with first element \<open>x\<close>.\<close>

fun Math_max :: "jstime \<Rightarrow> jstime list \<Rightarrow> jstime" where
  "Math_max x [] = x"
| "Math_max x (y # ys) = Math_max (max_time x y) ys"

definition checkTraderActivity ::
  "config \<Rightarrow> watched \<Rightarrow> fetch_result \<Rightarrow> watch_state \<Rightarrow> alert list \<times> watch_state" where
  "checkTraderActivity cfg trader fetched state =
     (case fetched of
        Threw \<Rightarrow> ([], state)
      | Absent \<Rightarrow> ([], state)
      | Page [] \<Rightarrow> ([], state)
      | Page (a # as) \<Rightarrow>
          (let seen = or_time (lastSeen state (wallet trader)) 0;
               newTrades = collectNew cfg trader seen (a # as);
               latestTime = Math_max (tradeTime a) (map tradeTime as)
           in (newTrades,
               state\<lparr>lastSeen := (lastSeen state)(wallet trader \<mapsto> latestTime)\<rparr>)))"

subsection \<open>The Cloud Run variant of the watcher\<close>

text \<open>
  This variant multiplies a numeric timestamp below \<open>10000000000\<close> by 1000 (seconds to
  milliseconds) and reads every other timestamp through \<^verbatim>\<open>new Date\<close>; it seeds the
  watermark of a wallet without entry from \<^verbatim>\<open>state.initialized\<close>, else from
  \<^verbatim>\<open>Date.now()\<close> (the parameter \<open>now\<close>). Its alert has no trader statistics:
  those fields of the record are empty here.
\<close>

fun getTime_cloud :: "stamp \<Rightarrow> jstime" where
  "getTime_cloud (Number x) = (if x < 10000000000 then Ms (x * 1000) else getTime (Number x))"
| "getTime_cloud (Other p) = getTime (Other p)"
| "getTime_cloud Null = getTime Null"
| "getTime_cloud Missing = getTime Missing"

definition tradeTime_cloud :: "trade \<Rightarrow> jstime" where
  "tradeTime_cloud t = getTime_cloud (timestamp t)"

definition mkAlert_cloud :: "watched \<Rightarrow> trade \<Rightarrow> alert" where
  "mkAlert_cloud trader t =
     \<lparr>alert_wallet = wallet trader,
      alert_userName = userName trader,
      alert_side = trade_side t,
      alert_outcome = or_str (outcome t) (title t),
      alert_market = or_str (eventTitle t) (or_str (market t) (slug t)),
      alert_size = trade_size t,
      alert_price = price t,
      alert_timestamp = timestamp t,
      traderPnl = None,
      traderVolume = None,
      alert_isEdgeTrader = False,
      alert_edgeScore = None\<rparr>"

fun collectNew_cloud :: "config \<Rightarrow> watched \<Rightarrow> real \<Rightarrow> trade list \<Rightarrow> alert list" where
  "collectNew_cloud cfg trader seen [] = []"
| "collectNew_cloud cfg trader seen (t # ts) =
     (if le_time (tradeTime_cloud t) seen then collectNew_cloud cfg trader seen ts
      else if trade_size t < minTradeSize cfg then collectNew_cloud cfg trader seen ts
      else mkAlert_cloud trader t # collectNew_cloud cfg trader seen ts)"

definition loadState_cloud :: "real \<Rightarrow> watch_state option \<Rightarrow> watch_state" where
  "loadState_cloud now file =
     (case file of
        None \<Rightarrow> \<lparr>lastSeen = Map.empty, watchlist = [], initialized = Some now\<rparr>
      | Some st \<Rightarrow> st)"

definition loadState :: "watch_state option \<Rightarrow> watch_state" where
  "loadState file =
     (case file of
        None \<Rightarrow> \<lparr>lastSeen = Map.empty, watchlist = [], initialized = None\<rparr>
      | Some st \<Rightarrow> st)"

definition checkTraderActivity_cloud ::
  "config \<Rightarrow> real \<Rightarrow> watched \<Rightarrow> fetch_result \<Rightarrow> watch_state \<Rightarrow> alert list \<times> watch_state" where
  "checkTraderActivity_cloud cfg now trader fetched state =
     (case fetched of
        Threw \<Rightarrow> ([], state)
      | Absent \<Rightarrow> ([], state)
      | Page [] \<Rightarrow> ([], state)
      | Page (a # as) \<Rightarrow>
          (let seen = or_time (lastSeen state (wallet trader)) (or_real (initialized state) now);
               newTrades = collectNew_cloud cfg trader seen (a # as);
               latestTime = Math_max (tradeTime_cloud a) (map tradeTime_cloud as)
           in (newTrades,
               state\<lparr>lastSeen := (lastSeen state)(wallet trader \<mapsto> latestTime)\<rparr>)))"

text \<open>
  The comparison in the words of the claims: a time is later than a watermark when it
  is a number above it.
\<close>

fun later_than :: "jstime \<Rightarrow> real \<Rightarrow> bool" where
  "later_than NaN s = False"
| "later_than (Ms x) s = (s < x)"

subsection \<open>One polling pass and the activity history\<close>

text \<open>
  \<^verbatim>\<open>runOnce\<close> visits the watchlist in order; \<open>polls\<close> pairs each visited trader
  with what the fetch for that trader produced. Every new trade is put at the front of
  the history (\<^verbatim>\<open>unshift\<close>), and \<^verbatim>\<open>saveActivity\<close> writes the first 1000 entries.
  The occasional refresh of the watchlist and the sending of alerts, which touch neither
  the last-seen map nor the history, are left out.
\<close>

fun unshift_all :: "alert list \<Rightarrow> alert list \<Rightarrow> alert list" where
  "unshift_all [] allActivity = allActivity"
| "unshift_all (t # ts) allActivity = unshift_all ts (t # allActivity)"

fun poll_loop ::
  "config \<Rightarrow> (watched \<times> fetch_result) list \<Rightarrow> watch_state \<Rightarrow> alert list
   \<Rightarrow> watch_state \<times> alert list" where
  "poll_loop cfg [] state allActivity = (state, allActivity)"
| "poll_loop cfg ((trader, fetched) # rest) state allActivity =
     (case checkTraderActivity cfg trader fetched state of
        (newTrades, state') \<Rightarrow> poll_loop cfg rest state' (unshift_all newTrades allActivity))"

definition loadActivity :: "alert list option \<Rightarrow> alert list" where
  "loadActivity file = (case file of None \<Rightarrow> [] | Some xs \<Rightarrow> xs)"

definition saveActivity :: "alert list \<Rightarrow> alert list option" where
  "saveActivity activity = Some (take 1000 activity)"

definition runOnce ::
  "config \<Rightarrow> (watched \<times> fetch_result) list \<Rightarrow> watch_state option \<times> alert list option
   \<Rightarrow> watch_state option \<times> alert list option" where
  "runOnce cfg polls files =
     (case poll_loop cfg polls (loadState (fst files)) (loadActivity (snd files)) of
        (state, allActivity) \<Rightarrow> (Some state, saveActivity allActivity))"

section \<open>Metrics calculator and edge scorer\<close>

text \<open>
  A leaderboard entry and a closed position. A position whose \<^verbatim>\<open>realizedPnl\<close> is
  absent compares false with zero both ways, as the value \<open>0\<close> does.
\<close>

record leader =
  proxyWallet :: string
  leader_userName :: string
  pnl :: "real option"
  vol :: "real option"

record closed_position =
  realizedPnl :: real

definition wins :: "closed_position list \<Rightarrow> closed_position list" where
  "wins closedPositions = filter (\<lambda>p. realizedPnl p > 0) closedPositions"

definition losses :: "closed_position list \<Rightarrow> closed_position list" where
  "losses closedPositions = filter (\<lambda>p. realizedPnl p < 0) closedPositions"

definition totalTrades :: "closed_position list \<Rightarrow> nat" where
  "totalTrades closedPositions = length (wins closedPositions) + length (losses closedPositions)"

definition winRate :: "closed_position list \<Rightarrow> real" where
  "winRate closedPositions =
     (if totalTrades closedPositions > 0
      then real (length (wins closedPositions)) / real (totalTrades closedPositions)
      else 1 / 2)"

definition totalWins :: "closed_position list \<Rightarrow> real" where
  "totalWins closedPositions = foldl (\<lambda>s p. s + realizedPnl p) 0 (wins closedPositions)"

definition totalLosses :: "closed_position list \<Rightarrow> real" where
  "totalLosses closedPositions = \<bar>foldl (\<lambda>s p. s + realizedPnl p) 0 (losses closedPositions)\<bar>"

definition profitFactor :: "closed_position list \<Rightarrow> real" where
  "profitFactor closedPositions =
     (if totalLosses closedPositions > 0
      then totalWins closedPositions / totalLosses closedPositions
      else if totalWins closedPositions > 0 then 10 else 1)"

definition volume :: "leader \<Rightarrow> real" where
  "volume trader = or_real (vol trader) 1"

definition efficiency :: "leader \<Rightarrow> real" where
  "efficiency trader = or_real (pnl trader) 0 / volume trader"

definition efficiencyScore :: "leader \<Rightarrow> real" where
  "efficiencyScore trader = min (efficiency trader * 200) 100"

definition winRateScore :: "closed_position list \<Rightarrow> real" where
  "winRateScore closedPositions = winRate closedPositions * 100"

definition profitFactorScore :: "closed_position list \<Rightarrow> real" where
  "profitFactorScore closedPositions = min (profitFactor closedPositions * 20) 100"

definition consistencyScore :: "closed_position list \<Rightarrow> real" where
  "consistencyScore closedPositions =
     (if totalTrades closedPositions > 20 then 100
      else real (totalTrades closedPositions) / 20 * 100)"

definition sizeScore :: "leader \<Rightarrow> real" where
  "sizeScore trader = min (log 10 (volume trader + 1) * 15) 100"

text \<open>The weighted sum, before the result object rounds it.\<close>

definition edgeScore_sum :: "leader \<Rightarrow> closed_position list \<Rightarrow> real" where
  "edgeScore_sum trader closedPositions =
     efficiencyScore trader * (30 / 100)
     + winRateScore closedPositions * (25 / 100)
     + profitFactorScore closedPositions * (20 / 100)
     + consistencyScore closedPositions * (15 / 100)
     + sizeScore trader * (10 / 100)"

record edge =
  edgeScore :: real
  edge_efficiency :: real
  edge_winRate :: real
  edge_profitFactor :: real
  edge_wins :: nat
  edge_losses :: nat
  edge_totalTrades :: nat

definition calculateEdgeScore :: "leader \<Rightarrow> closed_position list \<Rightarrow> edge" where
  "calculateEdgeScore trader closedPositions =
     \<lparr>edgeScore = real_of_int (Math_round (edgeScore_sum trader closedPositions * 10)) / 10,
      edge_efficiency = real_of_int (Math_round (efficiency trader * 1000)) / 10,
      edge_winRate = real_of_int (Math_round (winRate closedPositions * 1000)) / 10,
      edge_profitFactor = real_of_int (Math_round (profitFactor closedPositions * 100)) / 100,
      edge_wins = length (wins closedPositions),
      edge_losses = length (losses closedPositions),
      edge_totalTrades = totalTrades closedPositions\<rparr>"

text \<open>
  The edge detector's copy of the function computes the same scores and returns the
  rounded sub-scores as \<^verbatim>\<open>components\<close>, next to the statistics.
\<close>

definition avgWin :: "closed_position list \<Rightarrow> real" where
  "avgWin closedPositions =
     (if length (wins closedPositions) > 0
      then foldl (\<lambda>s p. s + realizedPnl p) 0 (wins closedPositions)
             / real (length (wins closedPositions))
      else 0)"

definition avgLoss :: "closed_position list \<Rightarrow> real" where
  "avgLoss closedPositions =
     (if length (losses closedPositions) > 0
      then \<bar>foldl (\<lambda>s p. s + realizedPnl p) 0 (losses closedPositions)
             / real (length (losses closedPositions))\<bar>
      else 1)"

record components =
  components_efficiency :: real
  components_winRate :: real
  components_profitFactor :: real
  components_consistency :: real
  components_size :: real

record stats =
  stats_pnl :: real
  stats_volume :: real
  stats_efficiencyPct :: real
  stats_winRate :: real
  stats_wins :: nat
  stats_losses :: nat
  stats_avgWin :: int
  stats_avgLoss :: int
  stats_profitFactor :: real
  stats_totalTrades :: nat

record edge_detail =
  detail_edgeScore :: real
  detail_components :: components
  detail_stats :: stats

definition calculateEdgeScore_detector :: "leader \<Rightarrow> closed_position list \<Rightarrow> edge_detail" where
  "calculateEdgeScore_detector trader closedPositions =
     \<lparr>detail_edgeScore =
        real_of_int (Math_round (edgeScore_sum trader closedPositions * 10)) / 10,
      detail_components =
        \<lparr>components_efficiency = real_of_int (Math_round (efficiencyScore trader * 10)) / 10,
         components_winRate = real_of_int (Math_round (winRateScore closedPositions * 10)) / 10,
         components_profitFactor =
           real_of_int (Math_round (profitFactorScore closedPositions * 10)) / 10,
         components_consistency =
           real_of_int (Math_round (consistencyScore closedPositions * 10)) / 10,
         components_size = real_of_int (Math_round (sizeScore trader * 10)) / 10\<rparr>,
      detail_stats =
        \<lparr>stats_pnl = or_real (pnl trader) 0,
         stats_volume = volume trader,
         stats_efficiencyPct = real_of_int (Math_round (efficiency trader * 1000)) / 10,
         stats_winRate = real_of_int (Math_round (winRate closedPositions * 1000)) / 10,
         stats_wins = length (wins closedPositions),
         stats_losses = length (losses closedPositions),
         stats_avgWin = Math_round (avgWin closedPositions),
         stats_avgLoss = Math_round (avgLoss closedPositions),
         stats_profitFactor = real_of_int (Math_round (profitFactor closedPositions * 100)) / 100,
         stats_totalTrades = totalTrades closedPositions\<rparr>\<rparr>"

subsection \<open>The copy-candidates endpoint\<close>

text \<open>
  The endpoint computes its metrics inline: the win rate defaults to \<open>0\<close>, the profit
  factor is \<open>10\<close> whenever there are no losses, and a trader is reported only when the
  three screening criteria hold.
\<close>

definition winRate_copy :: "closed_position list \<Rightarrow> real" where
  "winRate_copy cps =
     (if totalTrades cps > 0
      then real (length (wins cps)) / real (totalTrades cps)
      else 0)"

definition profitFactor_copy :: "closed_position list \<Rightarrow> real" where
  "profitFactor_copy cps =
     (if totalLosses cps > 0 then totalWins cps / totalLosses cps else 10)"

definition efficiency_copy :: "leader \<Rightarrow> real option" where
  "efficiency_copy trader =
     (case pnl trader of None \<Rightarrow> None | Some p \<Rightarrow> Some (p / or_real (vol trader) 1))"

definition is_candidate :: "leader \<Rightarrow> closed_position list \<Rightarrow> bool" where
  "is_candidate trader cps =
     (totalTrades cps \<ge> 15 \<and> winRate_copy cps \<ge> 70 / 100
      \<and> (case efficiency_copy trader of None \<Rightarrow> False | Some e \<Rightarrow> e \<ge> 30 / 100))"

text \<open>The \<^verbatim>\<open>profitFactor\<close> field of a pushed candidate; \<open>None\<close> when nothing is pushed.\<close>

definition candidate_profitFactor :: "leader \<Rightarrow> closed_position list \<Rightarrow> real option" where
  "candidate_profitFactor trader cps =
     (if is_candidate trader cps
      then Some (real_of_int (Math_round (profitFactor_copy cps * 100)) / 100)
      else None)"

section \<open>Trader aggregator\<close>

text \<open>
  \<^verbatim>\<open>traderMap\<close> is a \<^verbatim>\<open>Map\<close>: an association list in insertion order. The loop of
  the copy-candidates endpoint stores the leaderboard entry itself; the watcher's
  \<^verbatim>\<open>updateWatchlist\<close> runs the same loop with its own threshold and stores a rebuilt
  entry, so the stored value is the parameter \<open>build\<close>.
\<close>

definition qualifies :: "real \<Rightarrow> leader \<Rightarrow> bool" where
  "qualifies minVol t = (or_real (pnl t) 0 > 0 \<and> or_real (vol t) 0 > minVol)"

definition has :: "(string \<times> 'v) list \<Rightarrow> string \<Rightarrow> bool" where
  "has traderMap k = (k \<in> set (map fst traderMap))"

fun dedupe_loop ::
  "real \<Rightarrow> (leader \<Rightarrow> 'v) \<Rightarrow> (string \<times> 'v) list \<Rightarrow> leader list \<Rightarrow> (string \<times> 'v) list" where
  "dedupe_loop minVol build traderMap [] = traderMap"
| "dedupe_loop minVol build traderMap (t # ts) =
     (if \<not> has traderMap (proxyWallet t) \<and> qualifies minVol t
      then dedupe_loop minVol build (traderMap @ [(proxyWallet t, build t)]) ts
      else dedupe_loop minVol build traderMap ts)"

definition aggregateTraders :: "real \<Rightarrow> leader list list \<Rightarrow> leader list" where
  "aggregateTraders minVol sources = map snd (dedupe_loop minVol (\<lambda>t. t) [] (concat sources))"

text \<open>The endpoint: three leaderboards, threshold 50000, the first 50 values.\<close>

definition handler_traders :: "leader list \<Rightarrow> leader list \<Rightarrow> leader list \<Rightarrow> leader list" where
  "handler_traders allTime monthly weekly =
     take 50 (aggregateTraders 50000 [allTime, monthly, weekly])"

record watch_entry =
  entry_wallet :: string
  entry_userName :: string
  entry_pnl :: "real option"
  entry_volume :: "real option"
  entry_efficiency :: "real option"
  isCopyCandidate :: bool

definition mkEntry :: "leader \<Rightarrow> watch_entry" where
  "mkEntry t =
     \<lparr>entry_wallet = proxyWallet t,
      entry_userName = leader_userName t,
      entry_pnl = pnl t,
      entry_volume = vol t,
      entry_efficiency = efficiency_copy t,
      isCopyCandidate = False\<rparr>"

definition updateWatchlist_map ::
  "leader list \<Rightarrow> leader list \<Rightarrow> leader list \<Rightarrow> (string \<times> watch_entry) list" where
  "updateWatchlist_map allTime monthly weekly =
     dedupe_loop 10000 mkEntry [] (allTime @ monthly @ weekly)"

text \<open>
  The edge detector (\<^verbatim>\<open>detectEdgeTraders\<close>) splits the work: its loop stores the first
  entry of every wallet, and the filter runs afterwards, with \<open>\<ge>\<close> on the volume.
\<close>

fun firstSeen_loop :: "(string \<times> leader) list \<Rightarrow> leader list \<Rightarrow> (string \<times> leader) list" where
  "firstSeen_loop traderMap [] = traderMap"
| "firstSeen_loop traderMap (t # ts) =
     (if \<not> has traderMap (proxyWallet t)
      then firstSeen_loop (traderMap @ [(proxyWallet t, t)]) ts
      else firstSeen_loop traderMap ts)"

definition detect_candidates ::
  "real \<Rightarrow> leader list \<Rightarrow> leader list \<Rightarrow> leader list \<Rightarrow> leader list" where
  "detect_candidates minVolume allTime monthly weekly =
     filter (\<lambda>t. or_real (vol t) 0 \<ge> minVolume \<and> or_real (pnl t) 0 > 0)
       (map snd (firstSeen_loop [] (allTime @ monthly @ weekly)))"

text \<open>
  The policy in the words of the specification: of the records of one wallet, the first
  in processing order is kept.
\<close>

fun keepFirst :: "string list \<Rightarrow> leader list \<Rightarrow> leader list" where
  "keepFirst seen [] = []"
| "keepFirst seen (t # ts) =
     (if proxyWallet t \<in> set seen then keepFirst seen ts
      else t # keepFirst (proxyWallet t # seen) ts)"

definition firstSeenWins :: "real \<Rightarrow> leader list list \<Rightarrow> leader list" where
  "firstSeenWins minVol sources =
     filter (\<lambda>t. or_real (pnl t) 0 > 0 \<and> or_real (vol t) 0 \<ge> minVol) (keepFirst [] (concat sources))"

section \<open>Signal aggregator\<close>

text \<open>An open position, tagged with the followed trader it was fetched for.\<close>

record position =
  conditionId :: string
  pos_outcome :: string
  pos_title :: "string option"
  eventSlug :: "string option"
  pos_size :: "real option"
  currentValue :: "real option"
  avgPrice :: "real option"
  curPrice :: "real option"
  traderName :: string
  traderWallet :: string

record group =
  group_conditionId :: string
  group_market :: "string option"
  group_outcome :: string
  group_side :: string
  positions :: "position list"

record contributor =
  contributor_name :: string
  contributor_wallet :: string
  contributor_size :: "real option"

record signal =
  signal_id :: "int \<times> string"
  signal_timestamp :: int
  signal_conditionId :: string
  signal_market :: "string option"
  signal_outcome :: string
  signal_side :: string
  confidence :: real
  totalSize :: real
  signal_avgPrice :: real
  traderCount :: nat
  traders :: "contributor list"

record signal_config =
  minPositionSize :: real
  high :: real
  medium :: real
  low :: real

definition SIGNAL_CONFIG :: signal_config where
  "SIGNAL_CONFIG = \<lparr>minPositionSize = 5000, high = 8 / 10, medium = 6 / 10, low = 4 / 10\<rparr>"

definition or_opt :: "real option \<Rightarrow> real option \<Rightarrow> real option" where
  "or_opt x d = (case x of None \<Rightarrow> d | Some v \<Rightarrow> if v = 0 then d else Some v)"

subsection \<open>Grouping by market and outcome\<close>

definition group_key :: "position \<Rightarrow> string" where
  "group_key pos = conditionId pos @ ''-'' @ pos_outcome pos"

definition new_group :: "position \<Rightarrow> group" where
  "new_group pos =
     \<lparr>group_conditionId = conditionId pos,
      group_market = or_str (pos_title pos) (eventSlug pos),
      group_outcome = pos_outcome pos,
      group_side = (if or_real (pos_size pos) 0 > 0 then ''LONG'' else ''SHORT''),
      positions = []\<rparr>"

definition push_position :: "string \<Rightarrow> position \<Rightarrow> (string \<times> group) list \<Rightarrow> (string \<times> group) list" where
  "push_position key pos grouped =
     map (\<lambda>(k, g). if k = key then (k, g\<lparr>positions := positions g @ [pos]\<rparr>) else (k, g)) grouped"

fun group_loop :: "(string \<times> group) list \<Rightarrow> position list \<Rightarrow> (string \<times> group) list" where
  "group_loop grouped [] = grouped"
| "group_loop grouped (pos # rest) =
     (let key = group_key pos;
          grouped' = (if \<not> has grouped key then grouped @ [(key, new_group pos)] else grouped)
      in group_loop (push_position key pos grouped') rest)"

definition group_totalSize :: "group \<Rightarrow> real" where
  "group_totalSize g =
     foldl (\<lambda>s p. s + \<bar>or_real (currentValue p) (or_real (pos_size p) 0)\<bar>) 0 (positions g)"

definition group_avgPrice :: "group \<Rightarrow> real" where
  "group_avgPrice g =
     foldl (\<lambda>s p. s + or_real (avgPrice p) (or_real (curPrice p) 0)) 0 (positions g)
       / real (length (positions g))"

definition group_traderCount :: "group \<Rightarrow> nat" where
  "group_traderCount g = card (set (map traderWallet (positions g)))"

subsection \<open>The daemon's signal generator (\<^verbatim>\<open>copy-trader.js\<close>)\<close>

definition confidence_of :: "signal_config \<Rightarrow> nat \<Rightarrow> real \<Rightarrow> real" where
  "confidence_of cfg tc ts =
     (if tc \<ge> 3 then high cfg
      else if tc \<ge> 2 \<or> ts > 50000 then medium cfg
      else if ts > 10000 then low cfg
      else 0)"

text \<open>The confidence a group is emitted with; \<open>None\<close> is the \<^verbatim>\<open>continue\<close>.\<close>

definition emitted_confidence :: "signal_config \<Rightarrow> nat \<Rightarrow> real \<Rightarrow> real option" where
  "emitted_confidence cfg tc ts =
     (let c = confidence_of cfg tc ts in if c < low cfg then None else Some c)"

definition recently_signaled :: "int \<Rightarrow> group \<Rightarrow> signal \<Rightarrow> bool" where
  "recently_signaled now g s =
     (signal_conditionId s = group_conditionId g \<and> signal_outcome s = group_outcome g
      \<and> now - signal_timestamp s < 24 * 60 * 60 * 1000)"

definition signal_for ::
  "signal_config \<Rightarrow> int \<Rightarrow> signal list \<Rightarrow> string \<times> group \<Rightarrow> signal option" where
  "signal_for cfg now existingSignals entry =
     (case entry of (key, g) \<Rightarrow>
        if group_totalSize g < minPositionSize cfg then None
        else (case emitted_confidence cfg (group_traderCount g) (group_totalSize g) of
                None \<Rightarrow> None
              | Some c \<Rightarrow>
                  (case find (recently_signaled now g) existingSignals of
                     Some existingSignal \<Rightarrow> None
                   | None \<Rightarrow>
                       Some \<lparr>signal_id = (now, key),
                             signal_timestamp = now,
                             signal_conditionId = group_conditionId g,
                             signal_market = group_market g,
                             signal_outcome = group_outcome g,
                             signal_side = group_side g,
                             confidence = c,
                             totalSize = group_totalSize g,
                             signal_avgPrice = group_avgPrice g,
                             traderCount = group_traderCount g,
                             traders = map (\<lambda>p. \<lparr>contributor_name = traderName p,
                                                   contributor_wallet = traderWallet p,
                                                   contributor_size = or_opt (currentValue p) (pos_size p)\<rparr>)
                                         (positions g)\<rparr>)))"

fun signal_loop ::
  "signal_config \<Rightarrow> int \<Rightarrow> signal list \<Rightarrow> (string \<times> group) list \<Rightarrow> signal list" where
  "signal_loop cfg now existingSignals [] = []"
| "signal_loop cfg now existingSignals (e # es) =
     (case signal_for cfg now existingSignals e of
        None \<Rightarrow> signal_loop cfg now existingSignals es
      | Some s \<Rightarrow> s # signal_loop cfg now existingSignals es)"

definition loadSignals :: "signal list option \<Rightarrow> signal list" where
  "loadSignals file = (case file of None \<Rightarrow> [] | Some xs \<Rightarrow> xs)"

definition saveSignals :: "signal list \<Rightarrow> signal list option" where
  "saveSignals signals = Some (take 500 signals)"

text \<open>
  One run: the new signals against the history \<open>existingSignals\<close>, then the whole
  run on the history file, giving the new signals and the file as rewritten.
\<close>

definition newSignals_of :: "signal_config \<Rightarrow> int \<Rightarrow> signal list \<Rightarrow> position list \<Rightarrow> signal list" where
  "newSignals_of cfg now existingSignals allPositions =
     signal_loop cfg now existingSignals (group_loop [] allPositions)"

definition generateSignals ::
  "signal_config \<Rightarrow> int \<Rightarrow> position list \<Rightarrow> signal list option
   \<Rightarrow> signal list \<times> signal list option" where
  "generateSignals cfg now allPositions file =
     (let existingSignals = loadSignals file;
          newSignals = newSignals_of cfg now existingSignals allPositions
      in (newSignals, saveSignals (newSignals @ existingSignals)))"

subsection \<open>The stateless signals endpoint (\<^verbatim>\<open>api/signals.js\<close>)\<close>

text \<open>
  The endpoint follows two wallets. It fetches the positions of each, tags them with the
  wallet and skips a wallet whose fetch fails (\<open>None\<close>).
\<close>

definition kch123 :: string where
  "kch123 = ''0x6a72f61820b26b1fe4d956e17b6dc2a1ea3033ee''"

definition Theo4 :: string where
  "Theo4 = ''0xd91d2cbbfa4342cf425b5f10f734eb5d4e3cda67''"

definition FOLLOW_LIST :: "string list" where
  "FOLLOW_LIST = [kch123, Theo4]"

fun gather_positions :: "(string \<Rightarrow> position list option) \<Rightarrow> string list \<Rightarrow> position list" where
  "gather_positions fetchPositions [] = []"
| "gather_positions fetchPositions (w # ws) =
     (case fetchPositions w of
        None \<Rightarrow> gather_positions fetchPositions ws
      | Some ps \<Rightarrow> map (\<lambda>p. p\<lparr>traderWallet := w\<rparr>) ps @ gather_positions fetchPositions ws)"

record endpoint_signal =
  es_id :: string
  es_timestamp :: int
  es_conditionId :: string
  es_market :: "string option"
  es_outcome :: string
  es_side :: string
  es_confidence :: real
  es_totalSize :: real
  es_avgPrice :: real
  es_traderCount :: nat
  es_traders :: "(string \<times> real option) list"

definition confidence_endpoint :: "nat \<Rightarrow> real \<Rightarrow> real" where
  "confidence_endpoint tc ts = (if tc \<ge> 2 then 8 / 10 else if ts > 50000 then 6 / 10 else 4 / 10)"

text \<open>Per group: the signal pushed, \<open>None\<close> for the \<^verbatim>\<open>continue\<close>.\<close>

definition endpoint_signal_for :: "int \<Rightarrow> string \<times> group \<Rightarrow> endpoint_signal option" where
  "endpoint_signal_for now entry =
     (case entry of (key, g) \<Rightarrow>
        if group_totalSize g < 5000 then None
        else Some \<lparr>es_id = key,
                   es_timestamp = now,
                   es_conditionId = group_conditionId g,
                   es_market = group_market g,
                   es_outcome = group_outcome g,
                   es_side = group_side g,
                   es_confidence = confidence_endpoint (group_traderCount g) (group_totalSize g),
                   es_totalSize = group_totalSize g,
                   es_avgPrice = group_avgPrice g,
                   es_traderCount = group_traderCount g,
                   es_traders = map (\<lambda>p. (traderWallet p, or_opt (currentValue p) (pos_size p)))
                                  (positions g)\<rparr>)"

fun endpoint_loop :: "int \<Rightarrow> (string \<times> group) list \<Rightarrow> endpoint_signal list" where
  "endpoint_loop now [] = []"
| "endpoint_loop now (e # es) =
     (case endpoint_signal_for now e of
        None \<Rightarrow> endpoint_loop now es
      | Some s \<Rightarrow> s # endpoint_loop now es)"

text \<open>
  \<^verbatim>\<open>signals.sort((a, b) => b.totalSize - a.totalSize)\<close>: a stable sort, largest total
  size first. The answer is \<^verbatim>\<open>signals.slice(0, 20)\<close>.
\<close>

definition sort_by_totalSize :: "endpoint_signal list \<Rightarrow> endpoint_signal list" where
  "sort_by_totalSize signals = sort_key (\<lambda>s. - es_totalSize s) signals"

definition endpoint_signals :: "int \<Rightarrow> position list \<Rightarrow> endpoint_signal list" where
  "endpoint_signals now allPositions =
     take 20 (sort_by_totalSize (endpoint_loop now (group_loop [] allPositions)))"

definition handler_signals :: "int \<Rightarrow> (string \<Rightarrow> position list option) \<Rightarrow> endpoint_signal list" where
  "handler_signals now fetchPositions =
     endpoint_signals now (gather_positions fetchPositions FOLLOW_LIST)"

text \<open>The tier table in the words of the specification.\<close>

datatype tier = High | Medium | Low

definition tier_table :: "nat \<Rightarrow> real \<Rightarrow> tier option" where
  "tier_table tc ts =
     (if tc \<ge> 3 then Some High
      else if tc \<ge> 2 \<or> ts > 50000 then Some Medium
      else if ts > 10000 then Some Low
      else None)"

fun tier_value :: "signal_config \<Rightarrow> tier \<Rightarrow> real" where
  "tier_value cfg High = high cfg"
| "tier_value cfg Medium = medium cfg"
| "tier_value cfg Low = low cfg"

section \<open>Sample inputs\<close>

text \<open>
  Inputs for the worked examples: a feed record that carries a numeric timestamp and a
  \<^verbatim>\<open>usdcSize\<close>, a watched trader, a state whose only last-seen entry is the given
  one, a leaderboard entry, sixteen closed positions (fifteen wins of 10, one loss of 50),
  an open position of a followed trader on the outcome \<open>Yes\<close> of market \<open>c1\<close>,
  the fetch that finds both followed traders holding that outcome, and their group.
\<close>

definition feed_record :: "real \<Rightarrow> real \<Rightarrow> trade" where
  "feed_record ts sz =
     \<lparr>timestamp = Number ts, usdcSize = Some sz, size_t = None, side = Some ''BUY'', type_t = None,
      outcome = Some ''Yes'', title = None, eventTitle = None, market = None, slug = None,
      price = None\<rparr>"

definition whale :: watched where
  "whale =
     \<lparr>wallet = ''0xabc'', userName = ''whale'', pnl_w = Some 1000, volume_w = Some 5000,
      isEdgeTrader = None, edgeScore_w = None\<rparr>"

definition state_at :: "string \<Rightarrow> real \<Rightarrow> watch_state" where
  "state_at w ts = \<lparr>lastSeen = [w \<mapsto> Ms ts], watchlist = [], initialized = None\<rparr>"

definition board_entry :: "string \<Rightarrow> real \<Rightarrow> real \<Rightarrow> leader" where
  "board_entry w p v = \<lparr>proxyWallet = w, leader_userName = ''trader'', pnl = Some p, vol = Some v\<rparr>"

definition steady_winner :: "closed_position list" where
  "steady_winner = replicate 15 \<lparr>realizedPnl = 10\<rparr> @ [\<lparr>realizedPnl = - 50\<rparr>]"

definition open_position :: "string \<Rightarrow> string \<Rightarrow> real \<Rightarrow> position" where
  "open_position n w v =
     \<lparr>conditionId = ''c1'', pos_outcome = ''Yes'', pos_title = Some ''Market'', eventSlug = None,
      pos_size = Some v, currentValue = Some v, avgPrice = Some (1 / 2), curPrice = None,
      traderName = n, traderWallet = w\<rparr>"

definition both_hold :: "string \<Rightarrow> position list option" where
  "both_hold w =
     (if w = kch123 then Some [open_position ''kch123'' kch123 30000]
      else if w = Theo4 then Some [open_position ''Theo4'' Theo4 25000]
      else None)"

definition two_traders :: group where
  "two_traders = \<lparr>group_conditionId = ''c1'', group_market = Some ''Market'',
           group_outcome = ''Yes'', group_side = ''LONG'',
           positions = [open_position ''kch123'' kch123 30000, open_position ''Theo4'' Theo4 25000]\<rparr>"

section \<open>Properties of the tracker\<close>


lemma later_than_valid: "later_than j s \<Longrightarrow> j \<noteq> NaN"
  by (cases j) auto


lemma collectNew_cloud_filter:
  "collectNew_cloud cfg trader seen ts =
     map (mkAlert_cloud trader)
       (filter (\<lambda>t. \<not> le_time (tradeTime_cloud t) seen \<and> minTradeSize cfg \<le> trade_size t) ts)"
  by (induction ts) auto


lemma fst_checkTraderActivity_cloud:
  "fst (checkTraderActivity_cloud cfg now trader (Page activity) state) =
     collectNew_cloud cfg trader
       (or_time (lastSeen state (wallet trader)) (or_real (initialized state) now)) activity"
  by (cases activity) (simp_all add: checkTraderActivity_cloud_def Let_def)


lemma Math_max_NaN_first: "Math_max NaN ys = NaN"
  by (induction ys) simp_all

lemma Math_max_NaN: "NaN \<in> set (x # ys) \<Longrightarrow> Math_max x ys = NaN"
proof (induction ys arbitrary: x)
  case Nil
  then show ?case by simp
next
  case (Cons y ys)
  show ?case
  proof (cases "max_time x y = NaN")
    case True
    then show ?thesis by (simp add: Math_max_NaN_first)
  next
    case False
    then have "x \<noteq> NaN" and "y \<noteq> NaN" by (cases x; cases y; simp)+
    with Cons.prems have "NaN \<in> set ys" by auto
    then have "NaN \<in> set (max_time x y # ys)" by simp
    then show ?thesis using Cons.IH by simp
  qed
qed

lemma Math_max_valid:
  "\<forall>j \<in> set (x # ys). j \<noteq> NaN \<Longrightarrow>
     \<exists>m. Math_max x ys = Ms m \<and> Ms m \<in> set (x # ys) \<and> (\<forall>j \<in> set (x # ys). le_time j m)"
proof (induction ys arbitrary: x)
  case Nil
  then obtain a where "x = Ms a" by (cases x) auto
  then show ?case by simp
next
  case (Cons y ys)
  from Cons.prems obtain a b where x: "x = Ms a" and y: "y = Ms b"
    by (cases x; cases y; auto)
  have "\<forall>j \<in> set (Ms (max a b) # ys). j \<noteq> NaN" using Cons.prems by simp
  from Cons.IH [OF this] obtain m where m: "Math_max (Ms (max a b)) ys = Ms m"
    and mem: "Ms m \<in> set (Ms (max a b) # ys)"
    and le: "\<forall>j \<in> set (Ms (max a b) # ys). le_time j m"
    by blast
  have "Ms (max a b) = x \<or> Ms (max a b) = y" using x y by (simp add: max_def)
  with mem have mem': "Ms m \<in> set (x # y # ys)" by auto
  from le have "max a b \<le> m" by simp
  then have "le_time x m" and "le_time y m" using x y by simp_all
  with le have "\<forall>j \<in> set (x # y # ys). le_time j m" by simp
  with m mem' show ?case using x y by auto
qed

lemma snd_checkTraderActivity:
  "snd (checkTraderActivity cfg trader (Page (a # as)) state) =
     state\<lparr>lastSeen := (lastSeen state)(wallet trader \<mapsto> Math_max (tradeTime a) (map tradeTime as))\<rparr>"
  by (simp add: checkTraderActivity_def Let_def)

lemma snd_checkTraderActivity_cloud:
  "snd (checkTraderActivity_cloud cfg now trader (Page (a # as)) state) =
     state\<lparr>lastSeen := (lastSeen state)(wallet trader \<mapsto>
        Math_max (tradeTime_cloud a) (map tradeTime_cloud as))\<rparr>"
  by (simp add: checkTraderActivity_cloud_def Let_def)

lemma page_maximum:
  assumes "activity \<noteq> []" and "\<forall>t \<in> set activity. tm t \<noteq> NaN"
  shows "\<exists>m. Math_max (tm (hd activity)) (map tm (tl activity)) = Ms m
     \<and> (\<exists>t \<in> set activity. tm t = Ms m) \<and> (\<forall>t \<in> set activity. le_time (tm t) m)"
proof -
  obtain a as where act: "activity = a # as" using assms(1) by (cases activity) auto
  have "\<forall>j \<in> set (tm a # map tm as). j \<noteq> NaN" using assms(2) act by auto
  from Math_max_valid [OF this] obtain m where m: "Math_max (tm a) (map tm as) = Ms m"
    and mem: "Ms m \<in> set (tm a # map tm as)"
    and le: "\<forall>j \<in> set (tm a # map tm as). le_time j m"
    by blast
  from mem have "\<exists>t \<in> set activity. tm t = Ms m" using act by auto
  moreover from le have "\<forall>t \<in> set activity. le_time (tm t) m" using act by auto
  ultimately show ?thesis using m act by auto
qed

lemma stored_unchanged_elsewhere:
  "w \<noteq> wallet trader \<Longrightarrow>
     lastSeen (snd (checkTraderActivity cfg trader fetched state)) w = lastSeen state w"
  by (auto simp: checkTraderActivity_def Let_def split: fetch_result.splits list.splits)

lemma stored_unchanged_elsewhere_cloud:
  "w \<noteq> wallet trader \<Longrightarrow>
     lastSeen (snd (checkTraderActivity_cloud cfg now trader fetched state)) w = lastSeen state w"
  by (auto simp: checkTraderActivity_cloud_def Let_def split: fetch_result.splits list.splits)

lemma watermark_valid_page:
  assumes "activity \<noteq> []" and "\<forall>t \<in> set activity. tm t \<noteq> NaN"
    and "\<And>a as. activity = a # as \<Longrightarrow> stored = Some (Math_max (tm a) (map tm as))"
  shows "\<exists>m. stored = Some (Ms m)
       \<and> (\<exists>t \<in> set activity. tm t = Ms m)
       \<and> (\<forall>t \<in> set activity. le_time (tm t) m)
       \<and> (\<forall>old. (\<exists>t \<in> set activity. \<exists>x. tm t = Ms x \<and> old \<le> x) \<longrightarrow> old \<le> m)"
proof -
  obtain a as where act: "activity = a # as" using assms(1) by (cases activity) auto
  from page_maximum [OF assms(1,2)] obtain m
    where m: "Math_max (tm a) (map tm as) = Ms m"
      and mem: "\<exists>t \<in> set activity. tm t = Ms m"
      and le: "\<forall>t \<in> set activity. le_time (tm t) m"
    using act by auto
  have "old \<le> m" if "t \<in> set activity" "tm t = Ms x" "old \<le> x" for old t x
  proof -
    from le that(1) have "le_time (tm t) m" by blast
    with that(2,3) show ?thesis by simp
  qed
  then have "\<forall>old. (\<exists>t \<in> set activity. \<exists>x. tm t = Ms x \<and> old \<le> x) \<longrightarrow> old \<le> m"
    by blast
  with m mem le assms(3) [OF act] show ?thesis by auto
qed

text \<open>
  One fetched record without a valid time makes the stored watermark \<^verbatim>\<open>NaN\<close>, which
  the next poll reads as its default.
\<close>

lemma watermark_NaN:
  assumes "t \<in> set activity" and "tradeTime t = NaN"
  shows "lastSeen (snd (checkTraderActivity cfg trader (Page activity) state)) (wallet trader)
           = Some NaN"
proof -
  obtain a as where act: "activity = a # as" using assms(1) by (cases activity) auto
  have "NaN \<in> set (tradeTime a # map tradeTime as)" using assms act by force
  then show ?thesis by (simp add: act snd_checkTraderActivity Math_max_NaN)
qed

text \<open>
  In the Cloud Run variant a wallet without entry is read with the initialization time,
  else with the current time: no trade at or before that seed is returned, and on the
  very first run nothing from the backlog is.
\<close>

lemma cloud_first_poll_seed:
  assumes "lastSeen state (wallet trader) = None"
    and "x \<in> set (fst (checkTraderActivity_cloud cfg now trader (Page activity) state))"
  shows "\<not> le_time (getTime_cloud (alert_timestamp x)) (or_real (initialized state) now)"
  using assms
  by (auto simp: fst_checkTraderActivity_cloud collectNew_cloud_filter or_time_def
      mkAlert_cloud_def tradeTime_cloud_def)

lemma cloud_first_run_skips_backlog:
  assumes "\<forall>t \<in> set activity. le_time (tradeTime_cloud t) now"
  shows "fst (checkTraderActivity_cloud cfg now trader (Page activity) (loadState_cloud now None)) = []"
proof -
  have "or_time (lastSeen (loadState_cloud now None) (wallet trader))
          (or_real (initialized (loadState_cloud now None)) now) = now"
    by (simp add: loadState_cloud_def or_time_def or_real_def)
  moreover have "filter (\<lambda>t. \<not> le_time (tradeTime_cloud t) now \<and> minTradeSize cfg \<le> trade_size t)
      activity = []"
    using assms(1) by (auto simp: filter_empty_conv)
  ultimately show ?thesis
    by (simp add: fst_checkTraderActivity_cloud collectNew_cloud_filter)
qed




text \<open>
  The watermark is not monotone as such: a page whose records are all older than the
  stored watermark moves it back. Stored watermark 1000, one fetched record at 500. And
  a record without a valid time, here of timestamp -9000000000000000, leaves no number
  at all as the watermark.
\<close>

theorem watermark_monotone_counterexample:
  "lastSeen (state_at ''0xabc'' 1000) ''0xabc'' = Some (Ms 1000)
   \<and> lastSeen (snd (checkTraderActivity CONFIG whale (Page [feed_record 500 20000])
        (state_at ''0xabc'' 1000))) ''0xabc'' = Some (Ms 500)
   \<and> \<not> or_time (lastSeen (state_at ''0xabc'' 1000) ''0xabc'') 0
         \<le> or_time (lastSeen (snd (checkTraderActivity CONFIG whale (Page [feed_record 500 20000])
              (state_at ''0xabc'' 1000))) ''0xabc'') 0
   \<and> lastSeen (snd (checkTraderActivity CONFIG whale
          (Page [feed_record (- 9000000000000000) 20000])
          (state_at ''0xabc'' 1700000000000))) ''0xabc'' = Some NaN"
  by (simp add: checkTraderActivity_def Let_def state_at_def whale_def tradeTime_def
      feed_record_def or_time_def ToInteger_def)

text \<open>
  Claim C2, amended. After a non-empty page whose records all carry a valid time, the
  wallet's stored watermark is the greatest time among all fetched records, whatever
  the size filter kept: it is the time of one of them and none is later. Hence it is at
  least any value, the previous watermark included, that some fetched record reaches.
  No other wallet's entry changes, whatever the page.
\<close>

theorem watermark_is_page_maximum:
  assumes "activity \<noteq> []"
  shows "((\<forall>t \<in> set activity. tradeTime t \<noteq> NaN) \<longrightarrow>
          (\<exists>m. lastSeen (snd (checkTraderActivity cfg trader (Page activity) state)) (wallet trader)
                 = Some (Ms m)
             \<and> (\<exists>t \<in> set activity. tradeTime t = Ms m)
             \<and> (\<forall>t \<in> set activity. le_time (tradeTime t) m)
             \<and> (\<forall>old. (\<exists>t \<in> set activity. \<exists>x. tradeTime t = Ms x \<and> old \<le> x) \<longrightarrow> old \<le> m)))
     \<and> (\<forall>w. w \<noteq> wallet trader \<longrightarrow>
           lastSeen (snd (checkTraderActivity cfg trader (Page activity) state)) w = lastSeen state w)
     \<and> ((\<forall>t \<in> set activity. tradeTime_cloud t \<noteq> NaN) \<longrightarrow>
          (\<exists>m. lastSeen (snd (checkTraderActivity_cloud cfg now trader (Page activity) state))
                   (wallet trader) = Some (Ms m)
             \<and> (\<exists>t \<in> set activity. tradeTime_cloud t = Ms m)
             \<and> (\<forall>t \<in> set activity. le_time (tradeTime_cloud t) m)
             \<and> (\<forall>old. (\<exists>t \<in> set activity. \<exists>x. tradeTime_cloud t = Ms x \<and> old \<le> x)
                   \<longrightarrow> old \<le> m)))
     \<and> (\<forall>w. w \<noteq> wallet trader \<longrightarrow>
           lastSeen (snd (checkTraderActivity_cloud cfg now trader (Page activity) state)) w
             = lastSeen state w)"
proof -
  have a: "lastSeen (snd (checkTraderActivity cfg trader (Page activity) state)) (wallet trader)
      = Some (Math_max (tradeTime a) (map tradeTime as))" if "activity = a # as" for a as
    by (simp add: that snd_checkTraderActivity)
  have b: "lastSeen (snd (checkTraderActivity_cloud cfg now trader (Page activity) state))
      (wallet trader) = Some (Math_max (tradeTime_cloud a) (map tradeTime_cloud as))"
    if "activity = a # as" for a as
    by (simp add: that snd_checkTraderActivity_cloud)
  have p: "\<exists>m. lastSeen (snd (checkTraderActivity cfg trader (Page activity) state)) (wallet trader)
                 = Some (Ms m)
             \<and> (\<exists>t \<in> set activity. tradeTime t = Ms m)
             \<and> (\<forall>t \<in> set activity. le_time (tradeTime t) m)
             \<and> (\<forall>old. (\<exists>t \<in> set activity. \<exists>x. tradeTime t = Ms x \<and> old \<le> x) \<longrightarrow> old \<le> m)"
    if v: "\<forall>t \<in> set activity. tradeTime t \<noteq> NaN"
    by (rule watermark_valid_page [OF assms v]) (rule a)
  have q: "\<exists>m. lastSeen (snd (checkTraderActivity_cloud cfg now trader (Page activity) state))
                   (wallet trader) = Some (Ms m)
             \<and> (\<exists>t \<in> set activity. tradeTime_cloud t = Ms m)
             \<and> (\<forall>t \<in> set activity. le_time (tradeTime_cloud t) m)
             \<and> (\<forall>old. (\<exists>t \<in> set activity. \<exists>x. tradeTime_cloud t = Ms x \<and> old \<le> x)
                   \<longrightarrow> old \<le> m)"
    if v: "\<forall>t \<in> set activity. tradeTime_cloud t \<noteq> NaN"
    by (rule watermark_valid_page [OF assms v]) (rule b)
  show ?thesis
    using p q stored_unchanged_elsewhere stored_unchanged_elsewhere_cloud by blast
qed

theorem watermark_is_page_maximum_witness:
  "[feed_record 999999 20000, feed_record 1000001 50, feed_record 1000002 20] \<noteq> []
   \<and> tradeTime (feed_record 999999 20000) = Ms 999999
   \<and> tradeTime (feed_record 1000001 50) = Ms 1000001
   \<and> tradeTime (feed_record 1000002 20) = Ms 1000002
   \<and> lastSeen (state_at ''0xabc'' 1000000) (wallet whale) = Some (Ms 1000000)
   \<and> lastSeen (snd (checkTraderActivity CONFIG whale
         (Page [feed_record 999999 20000, feed_record 1000001 50, feed_record 1000002 20])
         (state_at ''0xabc'' 1000000))) (wallet whale) = Some (Ms 1000002)
   \<and> (1000000 :: real) \<le> 1000002
   \<and> lastSeen (snd (checkTraderActivity CONFIG whale
         (Page [feed_record 999999 20000, feed_record 1000001 50, feed_record 1000002 20])
         (state_at ''0xabc'' 1000000))) ''0xdef'' = None
   \<and> lastSeen (snd (checkTraderActivity_cloud CONFIG 5 whale
         (Page [feed_record 999999 20000, feed_record 1000001 50, feed_record 1000002 20])
         (state_at ''0xabc'' 1000000))) (wallet whale) = Some (Ms 1000002000)"
proof -
  have t: "tradeTime (feed_record 999999 20000) = Ms 999999"
    "tradeTime (feed_record 1000001 50) = Ms 1000001"
    "tradeTime (feed_record 1000002 20) = Ms 1000002"
    by (simp_all add: tradeTime_def feed_record_def ToInteger_def)
  have v: "\<forall>t \<in> set [feed_record 999999 20000, feed_record 1000001 50, feed_record 1000002 20].
      tradeTime t \<noteq> NaN"
    using t by simp
  have s: "lastSeen (snd (checkTraderActivity CONFIG whale
         (Page [feed_record 999999 20000, feed_record 1000001 50, feed_record 1000002 20])
         (state_at ''0xabc'' 1000000))) (wallet whale) = Some (Ms 1000002)"
    using t by (simp add: checkTraderActivity_def Let_def)
  have c: "lastSeen (snd (checkTraderActivity_cloud CONFIG 5 whale
         (Page [feed_record 999999 20000, feed_record 1000001 50, feed_record 1000002 20])
         (state_at ''0xabc'' 1000000))) (wallet whale) = Some (Ms 1000002000)"
    by (simp add: checkTraderActivity_cloud_def Let_def tradeTime_cloud_def feed_record_def)
  show ?thesis
    using watermark_is_page_maximum [of
        "[feed_record 999999 20000, feed_record 1000001 50, feed_record 1000002 20]"
        CONFIG whale "state_at ''0xabc'' 1000000" 5] t v s c
    by (simp add: whale_def state_at_def)
qed

text \<open>
  Claim C7. In \<^verbatim>\<open>whale-watcher.js\<close> a wallet without last-seen entry is read with
  watermark zero, and \<^verbatim>\<open>loadState\<close> sets no initialization time: on the first poll a
  trade from the backlog (here of September 2020) is returned as new.
\<close>

theorem first_poll_returns_backlog:
  "lastSeen (loadState None) (wallet whale) = None
   \<and> fst (checkTraderActivity CONFIG whale (Page [feed_record 1600000000000 20000])
        (loadState None)) = [mkAlert whale (feed_record 1600000000000 20000)]"
  by (simp add: checkTraderActivity_def Let_def loadState_def CONFIG_def or_time_def
      tradeTime_def trade_size_def or_real_def feed_record_def ToInteger_def)

text \<open>
  Claim C10. When the fetch throws, yields no list or yields an empty list,
  \<^verbatim>\<open>checkTraderActivity\<close> returns no new trades and the state, with the wallet's
  last-seen entry, is the one passed in; this holds in both variants of the watcher.
\<close>

theorem checkTraderActivity_error_path:
  "checkTraderActivity cfg trader Threw state = ([], state)
   \<and> checkTraderActivity cfg trader Absent state = ([], state)
   \<and> checkTraderActivity cfg trader (Page []) state = ([], state)
   \<and> checkTraderActivity_cloud cfg now trader Threw state = ([], state)
   \<and> checkTraderActivity_cloud cfg now trader Absent state = ([], state)
   \<and> checkTraderActivity_cloud cfg now trader (Page []) state = ([], state)"
  by (simp add: checkTraderActivity_def checkTraderActivity_cloud_def)

theorem checkTraderActivity_error_path_witness:
  "checkTraderActivity CONFIG whale Threw (state_at ''0xabc'' 1000000)
     = ([], state_at ''0xabc'' 1000000)
   \<and> checkTraderActivity CONFIG whale (Page []) (state_at ''0xabc'' 1000000)
     = ([], state_at ''0xabc'' 1000000)
   \<and> checkTraderActivity_cloud CONFIG 1000005 whale Absent (state_at ''0xabc'' 1000000)
     = ([], state_at ''0xabc'' 1000000)"
  using checkTraderActivity_error_path [of CONFIG whale "state_at ''0xabc'' 1000000" 1000005]
  by simp

section \<open>Properties of the scorer\<close>

lemma foldl_add_sum: "foldl (\<lambda>s p. s + f p) (a::real) xs = a + sum_list (map f xs)"
  by (induction xs arbitrary: a) (simp_all add: add.assoc)

lemma totalWins_sum: "totalWins cps = sum_list (map realizedPnl (wins cps))"
  by (simp add: totalWins_def foldl_add_sum)

lemma totalLosses_sum: "totalLosses cps = - sum_list (map realizedPnl (losses cps))"
proof -
  have "sum_list (map realizedPnl (losses cps)) \<le> 0"
    unfolding losses_def by (induction cps) auto
  then show ?thesis by (simp add: totalLosses_def foldl_add_sum)
qed

lemma totalWins_nonneg: "0 \<le> totalWins cps"
  unfolding totalWins_sum wins_def by (induction cps) auto

lemma totalLosses_nonneg: "0 \<le> totalLosses cps"
  by (simp add: totalLosses_def)

lemma totalWins_pos: "wins cps \<noteq> [] \<Longrightarrow> 0 < totalWins cps"
  unfolding totalWins_sum wins_def
proof (induction cps)
  case Nil
  then show ?case by simp
next
  case (Cons p ps)
  have nn: "0 \<le> sum_list (map realizedPnl (filter (\<lambda>p. 0 < realizedPnl p) ps))"
    by (induction ps) auto
  show ?case
  proof (cases "0 < realizedPnl p")
    case True
    with nn show ?thesis by simp
  next
    case False
    with Cons show ?thesis by simp
  qed
qed

lemma totalLosses_pos: "losses cps \<noteq> [] \<Longrightarrow> 0 < totalLosses cps"
  unfolding totalLosses_sum losses_def
proof (induction cps)
  case Nil
  then show ?case by simp
next
  case (Cons p ps)
  have np: "sum_list (map realizedPnl (filter (\<lambda>p. realizedPnl p < 0) ps)) \<le> 0"
    by (induction ps) auto
  show ?case
  proof (cases "realizedPnl p < 0")
    case True
    with np show ?thesis by simp
  next
    case False
    with Cons show ?thesis by simp
  qed
qed

lemma winRate_bounds: "0 \<le> winRate cps \<and> winRate cps \<le> 1"
proof (cases "totalTrades cps > 0")
  case True
  have "real (length (wins cps)) \<le> real (totalTrades cps)"
    by (simp add: totalTrades_def)
  with True show ?thesis by (simp add: winRate_def)
next
  case False
  then show ?thesis by (simp add: winRate_def)
qed

lemma profitFactor_nonneg: "0 \<le> profitFactor cps"
  using totalWins_nonneg [of cps] totalLosses_nonneg [of cps]
  by (simp add: profitFactor_def)

lemma winRateScore_bounds: "0 \<le> winRateScore cps \<and> winRateScore cps \<le> 100"
  using winRate_bounds [of cps] by (simp add: winRateScore_def)

lemma profitFactorScore_bounds: "0 \<le> profitFactorScore cps \<and> profitFactorScore cps \<le> 100"
  using profitFactor_nonneg [of cps] by (simp add: profitFactorScore_def)

lemma consistencyScore_bounds: "0 \<le> consistencyScore cps \<and> consistencyScore cps \<le> 100"
  by (simp add: consistencyScore_def)

lemma volume_pos: "0 \<le> or_real (vol t) 0 \<Longrightarrow> 0 < volume t"
  by (auto simp: volume_def or_real_def split: option.splits if_splits)

lemma sizeScore_bounds:
  assumes "0 \<le> or_real (vol t) 0"
  shows "0 \<le> sizeScore t \<and> sizeScore t \<le> 100"
proof -
  have "1 \<le> volume t + 1" using volume_pos [OF assms] by simp
  then have "0 \<le> log 10 (volume t + 1)" by simp
  then show ?thesis by (simp add: sizeScore_def)
qed

lemma efficiencyScore_bounds:
  assumes "0 \<le> or_real (pnl t) 0" and "0 \<le> or_real (vol t) 0"
  shows "0 \<le> efficiencyScore t \<and> efficiencyScore t \<le> 100"
proof -
  have "0 \<le> efficiency t"
    using assms(1) volume_pos [OF assms(2)] by (simp add: efficiency_def)
  then show ?thesis by (simp add: efficiencyScore_def)
qed

lemma Math_round_tenth_upper:
  assumes "x \<le> 100"
  shows "real_of_int (Math_round (x * 10)) / 10 \<le> 100"
proof -
  have "x * 10 + 1 / 2 < 1001" using assms by simp
  then have "\<lfloor>x * 10 + 1 / 2\<rfloor> < 1001" by (simp add: floor_less_iff)
  then have "Math_round (x * 10) \<le> 1000" by (simp add: Math_round_def)
  then show ?thesis by simp
qed

lemma Math_round_tenth_lower:
  assumes "0 \<le> x"
  shows "0 \<le> real_of_int (Math_round (x * 10)) / 10"
proof -
  have "0 \<le> Math_round (x * 10)" using assms by (simp add: Math_round_def)
  then show ?thesis by simp
qed

text \<open>
  Whatever the profit, the upper bound holds for every sub-score and for the edge
  score, and four sub-scores are not negative when the volume is not.
\<close>

lemma edgeScore_upper:
  "efficiencyScore t \<le> 100
   \<and> 0 \<le> winRateScore cps \<and> winRateScore cps \<le> 100
   \<and> 0 \<le> profitFactorScore cps \<and> profitFactorScore cps \<le> 100
   \<and> 0 \<le> consistencyScore cps \<and> consistencyScore cps \<le> 100
   \<and> sizeScore t \<le> 100
   \<and> edgeScore_sum t cps \<le> 100
   \<and> edgeScore (calculateEdgeScore t cps) \<le> 100
   \<and> detail_edgeScore (calculateEdgeScore_detector t cps) \<le> 100"
proof -
  have e: "efficiencyScore t \<le> 100" by (simp add: efficiencyScore_def)
  have z: "sizeScore t \<le> 100" by (simp add: sizeScore_def)
  have u: "edgeScore_sum t cps \<le> 100"
    using e z winRateScore_bounds [of cps] profitFactorScore_bounds [of cps]
      consistencyScore_bounds [of cps]
    unfolding edgeScore_sum_def by linarith
  show ?thesis
    using e z u Math_round_tenth_upper [OF u] winRateScore_bounds [of cps]
      profitFactorScore_bounds [of cps] consistencyScore_bounds [of cps]
    by (simp add: calculateEdgeScore_def calculateEdgeScore_detector_def)
qed

lemma sizeScore_lower: "0 \<le> or_real (vol t) 0 \<Longrightarrow> 0 \<le> sizeScore t"
  using sizeScore_bounds [of t] by simp

lemma edgeScore_sum_bounds:
  assumes "0 \<le> or_real (pnl t) 0" and "0 \<le> or_real (vol t) 0"
  shows "0 \<le> edgeScore_sum t cps \<and> edgeScore_sum t cps \<le> 100"
  using efficiencyScore_bounds [OF assms] sizeScore_bounds [OF assms(2)]
    winRateScore_bounds [of cps] profitFactorScore_bounds [of cps]
    consistencyScore_bounds [of cps]
  unfolding edgeScore_sum_def by linarith

text \<open>
  For a trader whose profit and volume are not negative, the lower bound holds as well:
  the efficiency score and the edge score, as the weighted sum and as the rounded field
  of either result, are not negative.
\<close>

lemma edgeScore_lower_profitable:
  assumes "0 \<le> or_real (pnl t) 0" and "0 \<le> or_real (vol t) 0"
  shows "0 \<le> efficiencyScore t \<and> 0 \<le> sizeScore t \<and> 0 \<le> edgeScore_sum t cps
    \<and> 0 \<le> edgeScore (calculateEdgeScore t cps)
    \<and> 0 \<le> detail_edgeScore (calculateEdgeScore_detector t cps)"
proof -
  have b: "0 \<le> edgeScore_sum t cps"
    using edgeScore_sum_bounds [OF assms] by simp
  show ?thesis
    using b Math_round_tenth_lower [OF b] efficiencyScore_bounds [OF assms]
      sizeScore_bounds [OF assms(2)]
    by (simp add: calculateEdgeScore_def calculateEdgeScore_detector_def)
qed

text \<open>
  Claim C1. The efficiency score is capped at 100 and nothing bounds it from below,
  where the edge detector announces components between 0 and 100: a trader with \<^verbatim>\<open>pnl\<close>
  -50000 and \<^verbatim>\<open>vol\<close> 100000, without closed positions, gets the efficiency score -100,
  reported as such among the components, and an edge score below zero.
\<close>

theorem edgeScore_negative_pnl:
  "efficiencyScore (board_entry ''0xabc'' (- 50000) 100000) = - 100
   \<and> components_efficiency
        (detail_components (calculateEdgeScore_detector (board_entry ''0xabc'' (- 50000) 100000) []))
       = - 100
   \<and> edgeScore_sum (board_entry ''0xabc'' (- 50000) 100000) [] < 0
   \<and> edgeScore (calculateEdgeScore (board_entry ''0xabc'' (- 50000) 100000) []) < 0
   \<and> detail_edgeScore (calculateEdgeScore_detector (board_entry ''0xabc'' (- 50000) 100000) []) < 0"
proof -
  have e: "efficiencyScore (board_entry ''0xabc'' (- 50000) 100000) = - 100"
    by (simp add: efficiencyScore_def efficiency_def volume_def or_real_def board_entry_def)
  have s: "sizeScore (board_entry ''0xabc'' (- 50000) 100000) \<le> 100" by (simp add: sizeScore_def)
  have w: "winRateScore [] = 50"
    by (simp add: winRateScore_def winRate_def totalTrades_def wins_def losses_def)
  have p: "profitFactorScore [] = 20"
    by (simp add: profitFactorScore_def profitFactor_def totalWins_def totalLosses_def
        wins_def losses_def)
  have c: "consistencyScore [] = 0"
    by (simp add: consistencyScore_def totalTrades_def wins_def losses_def)
  have lt: "edgeScore_sum (board_entry ''0xabc'' (- 50000) 100000) [] < - 1"
    using e s w p c unfolding edgeScore_sum_def by linarith
  then have "edgeScore_sum (board_entry ''0xabc'' (- 50000) 100000) [] * 10 + 1 / 2 < 0" by linarith
  then have "Math_round (edgeScore_sum (board_entry ''0xabc'' (- 50000) 100000) [] * 10) < 0"
    by (simp add: Math_round_def floor_less_iff)
  then have r: "edgeScore (calculateEdgeScore (board_entry ''0xabc'' (- 50000) 100000) []) < 0
    \<and> detail_edgeScore (calculateEdgeScore_detector (board_entry ''0xabc'' (- 50000) 100000) []) < 0"
    by (simp add: calculateEdgeScore_def calculateEdgeScore_detector_def)
  have "Math_round (- 1000) = - 1000" by (simp add: Math_round_def)
  then have k: "components_efficiency
        (detail_components (calculateEdgeScore_detector (board_entry ''0xabc'' (- 50000) 100000) []))
       = - 100"
    using e by (simp add: calculateEdgeScore_detector_def)
  from e k lt r show ?thesis by simp
qed

lemma traded_pos: "0 < totalTrades cps \<Longrightarrow> 0 < totalLosses cps \<or> 0 < totalWins cps"
proof -
  assume "0 < totalTrades cps"
  then have "wins cps \<noteq> [] \<or> losses cps \<noteq> []" by (auto simp: totalTrades_def)
  then show ?thesis using totalWins_pos totalLosses_pos by blast
qed

lemma steady_wins: "wins steady_winner = replicate 15 \<lparr>realizedPnl = 10\<rparr>"
  by (simp add: steady_winner_def wins_def)

lemma steady_losses: "losses steady_winner = [\<lparr>realizedPnl = - 50\<rparr>]"
  by (simp add: steady_winner_def losses_def)

lemma steady_totals: "totalWins steady_winner = 150 \<and> totalLosses steady_winner = 50
   \<and> totalTrades steady_winner = 16"
  by (simp add: totalWins_sum totalLosses_sum totalTrades_def steady_wins steady_losses
      sum_list_replicate)

lemma steady_candidate: "is_candidate (board_entry ''0xabc'' 50000 100000) steady_winner"
  using steady_totals
  by (simp add: is_candidate_def winRate_copy_def steady_wins efficiency_copy_def
      board_entry_def or_real_def)

text \<open>
  The two computations of the profit factor differ on the empty history: with no win
  and no loss the edge scorer gives 1, the copy-candidates endpoint gives 10.
\<close>

theorem profitFactor_policy_counterexample:
  "totalWins [] = 0 \<and> totalLosses [] = 0 \<and> profitFactor [] = 1 \<and> profitFactor_copy [] = 10
   \<and> profitFactor_copy [] \<noteq> profitFactor []"
  by (simp add: totalWins_def totalLosses_def profitFactor_def profitFactor_copy_def wins_def
      losses_def)

text \<open>
  Claim C4, amended. The edge scorer's profit factor is total wins over total losses
  when there are losses, else 10 when there are wins, else 1. The copy-candidates
  endpoint computes total wins over total losses when there are losses and 10 otherwise.
  The two agree as soon as one win or one loss exists, hence on every candidate the
  endpoint reports, whose profit factor field is the edge scorer's value, rounded.
\<close>

theorem profitFactor_policy:
  "profitFactor cps =
     (if totalLosses cps > 0 then totalWins cps / totalLosses cps
      else if totalWins cps > 0 then 10 else 1)
   \<and> profitFactor_copy cps =
     (if totalLosses cps > 0 then totalWins cps / totalLosses cps else 10)
   \<and> (totalTrades cps > 0 \<longrightarrow> profitFactor_copy cps = profitFactor cps)
   \<and> (is_candidate trader cps \<longrightarrow> profitFactor_copy cps = profitFactor cps)
   \<and> (\<forall>pf. candidate_profitFactor trader cps = Some pf \<longrightarrow>
         pf = real_of_int (Math_round (profitFactor cps * 100)) / 100)"
proof -
  have agree: "profitFactor_copy cps = profitFactor cps" if "totalTrades cps > 0"
    using traded_pos [OF that] totalLosses_nonneg [of cps]
    by (auto simp: profitFactor_def profitFactor_copy_def)
  have cand: "totalTrades cps > 0" if "is_candidate trader cps"
    using that by (simp add: is_candidate_def)
  show ?thesis
    using agree cand
    by (auto simp: profitFactor_def profitFactor_copy_def candidate_profitFactor_def
        split: if_splits)
qed

theorem profitFactor_policy_witness:
  "totalTrades steady_winner > 0 \<and> is_candidate (board_entry ''0xabc'' 50000 100000) steady_winner
   \<and> profitFactor steady_winner = 3 \<and> profitFactor_copy steady_winner = 3
   \<and> candidate_profitFactor (board_entry ''0xabc'' 50000 100000) steady_winner = Some 3"
proof -
  have c: "candidate_profitFactor (board_entry ''0xabc'' 50000 100000) steady_winner
      = Some (real_of_int (Math_round (profitFactor_copy steady_winner * 100)) / 100)"
    using steady_candidate by (simp add: candidate_profitFactor_def)
  have r: "Math_round 300 = 300" by (simp add: Math_round_def)
  show ?thesis
    using profitFactor_policy [of steady_winner "board_entry ''0xabc'' 50000 100000"] steady_totals
      steady_candidate c r
    by simp
qed

section \<open>Properties of the trader aggregator\<close>

lemma keepFirst_seen_set: "set seen = set seen' \<Longrightarrow> keepFirst seen ts = keepFirst seen' ts"
proof (induction ts arbitrary: seen seen')
  case Nil
  show ?case by simp
next
  case (Cons t ts)
  have "set (proxyWallet t # seen) = set (proxyWallet t # seen')" using Cons.prems by simp
  then have "keepFirst (proxyWallet t # seen) ts = keepFirst (proxyWallet t # seen') ts"
    by (rule Cons.IH)
  moreover have "keepFirst seen ts = keepFirst seen' ts" using Cons.prems by (rule Cons.IH)
  ultimately show ?case using Cons.prems by simp
qed

lemma dedupe_loop_keepFirst:
  "dedupe_loop minVol build traderMap ts =
     traderMap @ map (\<lambda>t. (proxyWallet t, build t))
       (keepFirst (map fst traderMap) (filter (qualifies minVol) ts))"
proof (induction ts arbitrary: traderMap)
  case Nil
  show ?case by simp
next
  case (Cons t ts)
  show ?case
  proof (cases "\<not> has traderMap (proxyWallet t) \<and> qualifies minVol t")
    case True
    have s: "keepFirst (map fst traderMap @ [proxyWallet t]) (filter (qualifies minVol) ts)
        = keepFirst (proxyWallet t # map fst traderMap) (filter (qualifies minVol) ts)"
      by (rule keepFirst_seen_set) auto
    show ?thesis using True by (simp add: Cons.IH s has_def)
  next
    case False
    then show ?thesis by (auto simp: Cons.IH has_def)
  qed
qed

lemma aggregateTraders_keepFirst:
  "aggregateTraders minVol sources = keepFirst [] (filter (qualifies minVol) (concat sources))"
  by (simp add: aggregateTraders_def dedupe_loop_keepFirst comp_def)

lemma keepFirst_subset: "set (keepFirst seen ts) \<subseteq> set ts"
  by (induction ts arbitrary: seen) auto

lemma keepFirst_unseen: "t \<in> set (keepFirst seen ts) \<Longrightarrow> proxyWallet t \<notin> set seen"
proof (induction ts arbitrary: seen)
  case Nil
  then show ?case by simp
next
  case (Cons u us)
  then show ?case by (fastforce split: if_splits)
qed

lemma keepFirst_distinct: "distinct (map proxyWallet (keepFirst seen ts))"
proof (induction ts arbitrary: seen)
  case Nil
  show ?case by simp
next
  case (Cons u us)
  have "proxyWallet u \<notin> proxyWallet ` set (keepFirst (proxyWallet u # seen) us)"
  proof
    assume "proxyWallet u \<in> proxyWallet ` set (keepFirst (proxyWallet u # seen) us)"
    then obtain x where x: "x \<in> set (keepFirst (proxyWallet u # seen) us)"
      and e: "proxyWallet u = proxyWallet x" by auto
    from x have "proxyWallet x \<notin> set (proxyWallet u # seen)" by (rule keepFirst_unseen)
    with e show False by simp
  qed
  then show ?case using Cons.IH by simp
qed

lemma keepFirst_id:
  "distinct (map proxyWallet ts) \<Longrightarrow> proxyWallet ` set ts \<inter> set seen = {} \<Longrightarrow> keepFirst seen ts = ts"
proof (induction ts arbitrary: seen)
  case Nil
  show ?case by simp
next
  case (Cons u us)
  have "proxyWallet ` set us \<inter> set (proxyWallet u # seen) = {}"
    using Cons.prems by auto
  moreover have "distinct (map proxyWallet us)" using Cons.prems by simp
  ultimately have "keepFirst (proxyWallet u # seen) us = us" by (rule Cons.IH [rotated])
  then show ?case using Cons.prems by auto
qed

lemma keepFirst_find:
  "t \<in> set (keepFirst seen ts) \<Longrightarrow> find (\<lambda>u. proxyWallet u = proxyWallet t) ts = Some t"
proof (induction ts arbitrary: seen)
  case Nil
  then show ?case by simp
next
  case (Cons u us)
  show ?case
  proof (cases "proxyWallet u \<in> set seen")
    case True
    with Cons.prems have m: "t \<in> set (keepFirst seen us)" by simp
    then have "proxyWallet t \<notin> set seen" by (rule keepFirst_unseen)
    with True have "proxyWallet u \<noteq> proxyWallet t" by auto
    then show ?thesis using Cons.IH [OF m] by simp
  next
    case False
    show ?thesis
    proof (cases "t = u")
      case True
      then show ?thesis by simp
    next
      case ne: False
      with Cons.prems False have m: "t \<in> set (keepFirst (proxyWallet u # seen) us)" by simp
      then have "proxyWallet t \<notin> set (proxyWallet u # seen)" by (rule keepFirst_unseen)
      then have "proxyWallet u \<noteq> proxyWallet t" by auto
      then show ?thesis using Cons.IH [OF m] by simp
    qed
  qed
qed

lemma find_filter_conj: "find P (filter Q ts) = find (\<lambda>u. P u \<and> Q u) ts"
  by (induction ts) auto

lemma aggregate_first_qualifying:
  assumes "t \<in> set (aggregateTraders minVol sources)"
  shows "find (\<lambda>u. proxyWallet u = proxyWallet t \<and> qualifies minVol u) (concat sources) = Some t"
  using keepFirst_find [of t "[]" "filter (qualifies minVol) (concat sources)"] assms
  by (simp add: aggregateTraders_keepFirst find_filter_conj)

lemma aggregate_qualifies:
  assumes "t \<in> set (aggregateTraders minVol sources)"
  shows "qualifies minVol t"
  using keepFirst_subset [of "[]" "filter (qualifies minVol) (concat sources)"] assms
  by (auto simp: aggregateTraders_keepFirst)

lemma aggregate_fixpoint:
  assumes "distinct (map proxyWallet ts)" and "\<forall>t \<in> set ts. qualifies minVol t"
  shows "aggregateTraders minVol [ts] = ts"
proof -
  have "filter (qualifies minVol) ts = ts" using assms(2) by (simp add: filter_id_conv)
  then show ?thesis using keepFirst_id [OF assms(1), of "[]"]
    by (simp add: aggregateTraders_keepFirst)
qed

lemma distinct_take_map: "distinct (map f xs) \<Longrightarrow> distinct (map f (take n xs))"
  by (simp add: take_map [symmetric])

text \<open>
  The edge detector, which dedupes first and filters afterwards, is first-seen-wins.
\<close>

lemma firstSeen_loop_keepFirst:
  "firstSeen_loop traderMap ts =
     traderMap @ map (\<lambda>t. (proxyWallet t, t)) (keepFirst (map fst traderMap) ts)"
proof (induction ts arbitrary: traderMap)
  case Nil
  show ?case by simp
next
  case (Cons t ts)
  show ?case
  proof (cases "has traderMap (proxyWallet t)")
    case True
    then show ?thesis by (simp add: Cons.IH has_def)
  next
    case False
    have s: "keepFirst (map fst traderMap @ [proxyWallet t]) ts
        = keepFirst (proxyWallet t # map fst traderMap) ts"
      by (rule keepFirst_seen_set) auto
    show ?thesis using False by (simp add: Cons.IH s has_def)
  qed
qed

lemma detect_candidates_firstSeenWins:
  "detect_candidates minVolume allTime monthly weekly
     = firstSeenWins minVolume [allTime, monthly, weekly]"
proof -
  have "(\<lambda>t. or_real (vol t) 0 \<ge> minVolume \<and> or_real (pnl t) 0 > 0)
      = (\<lambda>t. or_real (pnl t) 0 > 0 \<and> or_real (vol t) 0 \<ge> minVolume)"
    by auto
  then show ?thesis
    by (simp add: detect_candidates_def firstSeenWins_def firstSeen_loop_keepFirst comp_def
        conj_commute)
qed

text \<open>The two callers of the combined loop, through the aggregation.\<close>

lemma handler_traders_keepFirst:
  "handler_traders allTime monthly weekly
     = take 50 (keepFirst [] (filter (qualifies 50000) (allTime @ monthly @ weekly)))"
  by (simp add: handler_traders_def aggregateTraders_keepFirst)

lemma updateWatchlist_map_keepFirst:
  "updateWatchlist_map allTime monthly weekly
     = map (\<lambda>t. (proxyWallet t, mkEntry t))
         (keepFirst [] (filter (qualifies 10000) (allTime @ monthly @ weekly)))"
  by (simp add: updateWatchlist_map_def dedupe_loop_keepFirst)

text \<open>
  The loop of the copy-candidates endpoint is not first-seen-wins: a wallet whose first
  record fails the filter is kept with a later record. The wallet appears first with a
  loss, then with a gain; the gain is kept, where first-seen-wins keeps nothing.
\<close>

theorem first_seen_wins_counterexample:
  "aggregateTraders 50000
     [[board_entry ''0xabc'' (- 5) 100000], [board_entry ''0xabc'' 10 100000]]
     = [board_entry ''0xabc'' 10 100000]
   \<and> find (\<lambda>u. proxyWallet u = ''0xabc'')
       (concat [[board_entry ''0xabc'' (- 5) 100000], [board_entry ''0xabc'' 10 100000]])
     = Some (board_entry ''0xabc'' (- 5) 100000)
   \<and> firstSeenWins 50000
     [[board_entry ''0xabc'' (- 5) 100000], [board_entry ''0xabc'' 10 100000]] = []
   \<and> handler_traders [board_entry ''0xabc'' (- 5) 100000] [board_entry ''0xabc'' 10 100000] []
     = [board_entry ''0xabc'' 10 100000]"
  by (simp add: handler_traders_def aggregateTraders_def firstSeenWins_def has_def
      qualifies_def board_entry_def or_real_def)

text \<open>
  Claim C6, amended. The aggregation returns at most one record per wallet; every
  record returned has \<open>pnl > 0\<close> and a volume above (hence at least) the threshold,
  and is, verbatim, the first record of its wallet in processing order that passes this
  filter; later records of the wallet are dropped unmerged. The watcher's loop keeps the
  same records and stores its rebuilt entry for each.
\<close>

theorem aggregate_first_qualifying_wins:
  "distinct (map proxyWallet (aggregateTraders minVol sources))
   \<and> (\<forall>t \<in> set (aggregateTraders minVol sources).
        or_real (pnl t) 0 > 0 \<and> or_real (vol t) 0 > minVol \<and> or_real (vol t) 0 \<ge> minVol
        \<and> find (\<lambda>u. proxyWallet u = proxyWallet t \<and> qualifies minVol u) (concat sources) = Some t)
   \<and> aggregateTraders minVol sources = keepFirst [] (filter (qualifies minVol) (concat sources))
   \<and> dedupe_loop minVol build [] (concat sources)
       = map (\<lambda>t. (proxyWallet t, build t)) (aggregateTraders minVol sources)"
proof -
  have q: "or_real (pnl t) 0 > 0 \<and> or_real (vol t) 0 > minVol \<and> or_real (vol t) 0 \<ge> minVol"
    if "t \<in> set (aggregateTraders minVol sources)" for t
    using aggregate_qualifies [OF that] by (simp add: qualifies_def)
  have d: "distinct (map proxyWallet (aggregateTraders minVol sources))"
    by (simp add: aggregateTraders_keepFirst keepFirst_distinct)
  have l: "dedupe_loop minVol build [] (concat sources)
       = map (\<lambda>t. (proxyWallet t, build t)) (aggregateTraders minVol sources)"
    by (simp add: dedupe_loop_keepFirst aggregateTraders_keepFirst)
  show ?thesis
    using q d l aggregate_first_qualifying aggregateTraders_keepFirst by blast
qed

theorem aggregate_first_qualifying_wins_witness:
  "aggregateTraders 50000
     [[board_entry ''0xaaa'' 10 100000, board_entry ''0xbbb'' (- 5) 100000],
      [board_entry ''0xaaa'' 20 200000, board_entry ''0xbbb'' 7 60000]]
     = [board_entry ''0xaaa'' 10 100000, board_entry ''0xbbb'' 7 60000]
   \<and> or_real (pnl (board_entry ''0xbbb'' 7 60000)) 0 > 0
   \<and> or_real (vol (board_entry ''0xbbb'' 7 60000)) 0 > 50000
   \<and> find (\<lambda>u. proxyWallet u = ''0xbbb'' \<and> qualifies 50000 u)
        (concat [[board_entry ''0xaaa'' 10 100000, board_entry ''0xbbb'' (- 5) 100000],
                 [board_entry ''0xaaa'' 20 200000, board_entry ''0xbbb'' 7 60000]])
       = Some (board_entry ''0xbbb'' 7 60000)
   \<and> distinct (map proxyWallet (aggregateTraders 50000
     [[board_entry ''0xaaa'' 10 100000, board_entry ''0xbbb'' (- 5) 100000],
      [board_entry ''0xaaa'' 20 200000, board_entry ''0xbbb'' 7 60000]]))"
proof -
  have e: "aggregateTraders 50000
     [[board_entry ''0xaaa'' 10 100000, board_entry ''0xbbb'' (- 5) 100000],
      [board_entry ''0xaaa'' 20 200000, board_entry ''0xbbb'' 7 60000]]
     = [board_entry ''0xaaa'' 10 100000, board_entry ''0xbbb'' 7 60000]"
    by (simp add: aggregateTraders_def has_def qualifies_def board_entry_def or_real_def)
  show ?thesis
    using aggregate_first_qualifying_wins [of 50000
     "[[board_entry ''0xaaa'' 10 100000, board_entry ''0xbbb'' (- 5) 100000],
      [board_entry ''0xaaa'' 20 200000, board_entry ''0xbbb'' 7 60000]]" "\<lambda>t. t"] e
    by (simp add: board_entry_def or_real_def qualifies_def)
qed

text \<open>
  Claim C8. Aggregating the output of the aggregation, given as the only source list,
  returns that output; so does the endpoint's variant, which keeps the first 50.
\<close>

theorem aggregateTraders_idempotent:
  "aggregateTraders minVol [aggregateTraders minVol sources] = aggregateTraders minVol sources
   \<and> handler_traders (handler_traders allTime monthly weekly) [] []
       = handler_traders allTime monthly weekly"
proof -
  let ?out = "aggregateTraders minVol sources"
  have d: "distinct (map proxyWallet (aggregateTraders mv srcs))" for mv srcs
    by (simp add: aggregateTraders_keepFirst keepFirst_distinct)
  have q: "\<forall>t \<in> set (aggregateTraders mv srcs). qualifies mv t" for mv srcs
    using aggregate_qualifies by blast
  have a: "aggregateTraders minVol [?out] = ?out"
    using d q by (rule aggregate_fixpoint)
  let ?h = "handler_traders allTime monthly weekly"
  have hd: "distinct (map proxyWallet ?h)"
    unfolding handler_traders_def by (rule distinct_take_map) (rule d)
  have hq: "\<forall>t \<in> set ?h. qualifies 50000 t"
    unfolding handler_traders_def using q [of 50000 "[allTime, monthly, weekly]"]
    by (auto dest: in_set_takeD)
  have "aggregateTraders 50000 [?h, [], []] = aggregateTraders 50000 [?h]"
    by (simp add: aggregateTraders_def)
  also have "\<dots> = ?h" using hd hq by (rule aggregate_fixpoint)
  finally have "handler_traders ?h [] [] = take 50 ?h"
    by (simp add: handler_traders_def)
  also have "\<dots> = ?h" by (simp add: handler_traders_def)
  finally show ?thesis using a by simp
qed

theorem aggregateTraders_idempotent_witness:
  "aggregateTraders 50000
     [[board_entry ''0xaaa'' 10 100000, board_entry ''0xbbb'' (- 5) 100000],
      [board_entry ''0xaaa'' 20 200000, board_entry ''0xbbb'' 7 60000]]
     = [board_entry ''0xaaa'' 10 100000, board_entry ''0xbbb'' 7 60000]
   \<and> aggregateTraders 50000 [[board_entry ''0xaaa'' 10 100000, board_entry ''0xbbb'' 7 60000]]
     = [board_entry ''0xaaa'' 10 100000, board_entry ''0xbbb'' 7 60000]"
proof -
  have e: "aggregateTraders 50000
     [[board_entry ''0xaaa'' 10 100000, board_entry ''0xbbb'' (- 5) 100000],
      [board_entry ''0xaaa'' 20 200000, board_entry ''0xbbb'' 7 60000]]
     = [board_entry ''0xaaa'' 10 100000, board_entry ''0xbbb'' 7 60000]"
    by (simp add: aggregateTraders_def has_def qualifies_def board_entry_def or_real_def)
  show ?thesis
    using aggregateTraders_idempotent [of 50000
     "[[board_entry ''0xaaa'' 10 100000, board_entry ''0xbbb'' (- 5) 100000],
      [board_entry ''0xaaa'' 20 200000, board_entry ''0xbbb'' 7 60000]]"] e
    by simp
qed

section \<open>Properties of the signal aggregator\<close>

lemma emitted_confidence_table:
  assumes "0 < low cfg" and "low cfg \<le> medium cfg" and "low cfg \<le> high cfg"
  shows "emitted_confidence cfg tc ts = map_option (tier_value cfg) (tier_table tc ts)"
  using assms by (simp add: emitted_confidence_def confidence_of_def tier_table_def Let_def)

lemma signal_for_confidence:
  "signal_for cfg now existing (key, g) = Some s \<Longrightarrow>
     emitted_confidence cfg (group_traderCount g) (group_totalSize g) = Some (confidence s)"
  by (auto simp: signal_for_def split: if_splits option.splits)

lemma signal_for_dropped:
  "emitted_confidence cfg (group_traderCount g) (group_totalSize g) = None \<Longrightarrow>
     signal_for cfg now existing (key, g) = None"
  by (simp add: signal_for_def)

lemma signal_for_fields:
  "signal_for cfg now existing (key, g) = Some s \<Longrightarrow>
     traderCount s = group_traderCount g \<and> totalSize s = group_totalSize g"
  by (auto simp: signal_for_def split: if_splits option.splits)

lemma signal_loop_mem:
  "s \<in> set (signal_loop cfg now existing es) \<Longrightarrow>
     \<exists>e \<in> set es. signal_for cfg now existing e = Some s"
  by (induction es) (auto split: option.splits)

lemma newSignals_confidence:
  assumes "s \<in> set (newSignals_of cfg now existing ps)"
  shows "emitted_confidence cfg (traderCount s) (totalSize s) = Some (confidence s)"
proof -
  from assms obtain e where "signal_for cfg now existing e = Some s"
    unfolding newSignals_of_def by (blast dest: signal_loop_mem)
  then show ?thesis
    using signal_for_confidence [of cfg now existing "fst e" "snd e" s]
      signal_for_fields [of cfg now existing "fst e" "snd e" s]
    by simp
qed

lemma endpoint_loop_mem:
  "s \<in> set (endpoint_loop now es) = (\<exists>e \<in> set es. endpoint_signal_for now e = Some s)"
  by (induction es) (auto split: option.splits)

lemma endpoint_signal_for_fields:
  "endpoint_signal_for now (key, g) = Some s \<Longrightarrow>
     5000 \<le> es_totalSize s
     \<and> es_confidence s = confidence_endpoint (es_traderCount s) (es_totalSize s)
     \<and> es_id s = key \<and> es_totalSize s = group_totalSize g
     \<and> es_traderCount s = group_traderCount g"
  by (auto simp: endpoint_signal_for_def split: if_splits)

lemma endpoint_signal_for_emits:
  "5000 \<le> group_totalSize g \<Longrightarrow> \<exists>s. endpoint_signal_for now (key, g) = Some s"
  by (simp add: endpoint_signal_for_def)

lemma set_sort_by_totalSize: "set (sort_by_totalSize xs) = set xs"
  by (simp add: sort_by_totalSize_def)

lemma length_sort_by_totalSize: "length (sort_by_totalSize xs) = length xs"
  by (simp add: sort_by_totalSize_def)

lemma sorted_sort_by_totalSize: "sorted (map (\<lambda>s. - es_totalSize s) (sort_by_totalSize xs))"
  by (simp add: sort_by_totalSize_def)

lemma endpoint_signals_subset:
  "set (endpoint_signals now ps) \<subseteq> set (endpoint_loop now (group_loop [] ps))"
  unfolding endpoint_signals_def
  using set_take_subset [of 20 "sort_by_totalSize (endpoint_loop now (group_loop [] ps))"]
  by (simp add: set_sort_by_totalSize)

lemma endpoint_signals_all:
  "length (endpoint_loop now (group_loop [] ps)) \<le> 20 \<Longrightarrow>
     set (endpoint_signals now ps) = set (endpoint_loop now (group_loop [] ps))"
  by (simp add: endpoint_signals_def length_sort_by_totalSize set_sort_by_totalSize)

lemma endpoint_signals_sorted:
  "sorted (map (\<lambda>s. - es_totalSize s) (endpoint_signals now ps))"
  unfolding endpoint_signals_def
  using sorted_sort_by_totalSize [of "endpoint_loop now (group_loop [] ps)"]
  by (simp add: take_map [symmetric] sorted_wrt_take)

lemma gathered_both:
  "gather_positions both_hold FOLLOW_LIST
     = [open_position ''kch123'' kch123 30000, open_position ''Theo4'' Theo4 25000]"
  by (simp add: FOLLOW_LIST_def both_hold_def open_position_def kch123_def Theo4_def)

lemma two_traders_grouped:
  "group_loop [] [open_position ''kch123'' kch123 30000, open_position ''Theo4'' Theo4 25000]
     = [(''c1-Yes'', two_traders)]"
  by (simp add: Let_def group_key_def has_def new_group_def push_position_def or_str_def
      or_real_def open_position_def two_traders_def)

lemma two_traders_metrics:
  "group_totalSize two_traders = 55000 \<and> group_traderCount two_traders = 2"
  by (simp add: two_traders_def group_totalSize_def group_traderCount_def open_position_def
      or_real_def kch123_def Theo4_def)

lemma both_hold_evaluated:
  "map traderCount (newSignals_of SIGNAL_CONFIG 0 [] (gather_positions both_hold FOLLOW_LIST)) = [2]
   \<and> map totalSize (newSignals_of SIGNAL_CONFIG 0 [] (gather_positions both_hold FOLLOW_LIST))
       = [55000]
   \<and> map confidence (newSignals_of SIGNAL_CONFIG 0 [] (gather_positions both_hold FOLLOW_LIST))
       = [6 / 10]
   \<and> map es_traderCount (handler_signals 0 both_hold) = [2]
   \<and> map es_totalSize (handler_signals 0 both_hold) = [55000]
   \<and> map es_confidence (handler_signals 0 both_hold) = [8 / 10]"
proof -
  have "signal_loop SIGNAL_CONFIG 0 [] [(''c1-Yes'', two_traders)]
      = [the (signal_for SIGNAL_CONFIG 0 [] (''c1-Yes'', two_traders))]
    \<and> confidence (the (signal_for SIGNAL_CONFIG 0 [] (''c1-Yes'', two_traders))) = 6 / 10
    \<and> traderCount (the (signal_for SIGNAL_CONFIG 0 [] (''c1-Yes'', two_traders))) = 2
    \<and> totalSize (the (signal_for SIGNAL_CONFIG 0 [] (''c1-Yes'', two_traders))) = 55000"
    using two_traders_metrics
    by (simp add: signal_for_def emitted_confidence_def confidence_of_def SIGNAL_CONFIG_def)
  moreover have "endpoint_loop 0 [(''c1-Yes'', two_traders)]
      = [the (endpoint_signal_for 0 (''c1-Yes'', two_traders))]
    \<and> es_confidence (the (endpoint_signal_for 0 (''c1-Yes'', two_traders))) = 8 / 10
    \<and> es_traderCount (the (endpoint_signal_for 0 (''c1-Yes'', two_traders))) = 2
    \<and> es_totalSize (the (endpoint_signal_for 0 (''c1-Yes'', two_traders))) = 55000"
    using two_traders_metrics
    by (simp add: endpoint_signal_for_def confidence_endpoint_def)
  ultimately show ?thesis
    unfolding newSignals_of_def handler_signals_def endpoint_signals_def sort_by_totalSize_def
      gathered_both two_traders_grouped
    by simp
qed

lemma unshift_all_rev: "unshift_all ts acts = rev ts @ acts"
  by (induction ts arbitrary: acts) simp_all

lemma poll_loop_prepends:
  "\<exists>news. snd (poll_loop cfg polls state acts) = news @ acts"
proof (induction polls arbitrary: state acts)
  case Nil
  show ?case by simp
next
  case (Cons p ps)
  obtain trader fetched where p: "p = (trader, fetched)" by (cases p)
  obtain newTrades state' where c: "checkTraderActivity cfg trader fetched state = (newTrades, state')"
    by (cases "checkTraderActivity cfg trader fetched state")
  from Cons.IH [of state' "rev newTrades @ acts"]
  obtain news where "snd (poll_loop cfg ps state' (rev newTrades @ acts)) = news @ rev newTrades @ acts"
    by auto
  then have "snd (poll_loop cfg (p # ps) state acts) = (news @ rev newTrades) @ acts"
    by (simp add: p c unshift_all_rev)
  then show ?case by blast
qed

text \<open>
  The stateless endpoint does not apply the daemon's tier table: when both followed
  traders hold the outcome, 55000 together, the daemon emits a medium signal (0.6) and
  the endpoint answers with a high one (0.8).
\<close>

theorem tier_table_counterexample:
  "tier_table 2 55000 = Some Medium
   \<and> map traderCount (newSignals_of SIGNAL_CONFIG 0 [] (gather_positions both_hold FOLLOW_LIST)) = [2]
   \<and> map totalSize (newSignals_of SIGNAL_CONFIG 0 [] (gather_positions both_hold FOLLOW_LIST))
       = [55000]
   \<and> map confidence (newSignals_of SIGNAL_CONFIG 0 [] (gather_positions both_hold FOLLOW_LIST))
       = [6 / 10]
   \<and> map es_traderCount (handler_signals 0 both_hold) = [2]
   \<and> map es_totalSize (handler_signals 0 both_hold) = [55000]
   \<and> map es_confidence (handler_signals 0 both_hold) = [8 / 10]"
  using both_hold_evaluated by (simp add: tier_table_def)

text \<open>
  Claim C5, amended. In the daemon's generator a group is given the high confidence
  when at least 3 traders contribute, the medium one when at least 2 contribute or the
  total size exceeds 50000, the low one when the total size exceeds 10000, and is
  dropped otherwise; so is every signal of a run. The stateless endpoint has its own
  table: every signal of its answer carries 0.8 when at least 2 traders contribute, 0.6
  when the total size exceeds 50000, 0.4 otherwise. No tier drops a group there: every
  group of total size 5000 or more becomes a signal, and the answer is the first 20
  signals in descending order of total size, that is all of them when there are at most
  20.
\<close>

theorem tier_tables:
  assumes "0 < low cfg" and "low cfg \<le> medium cfg" and "low cfg \<le> high cfg"
  shows "emitted_confidence cfg tc ts = map_option (tier_value cfg) (tier_table tc ts)
   \<and> (\<forall>s. signal_for cfg now existing (key, g) = Some s \<longrightarrow>
         map_option (tier_value cfg) (tier_table (group_traderCount g) (group_totalSize g))
           = Some (confidence s))
   \<and> (tier_table (group_traderCount g) (group_totalSize g) = None \<longrightarrow>
         signal_for cfg now existing (key, g) = None)
   \<and> (\<forall>s \<in> set (newSignals_of cfg now existing ps).
         map_option (tier_value cfg) (tier_table (traderCount s) (totalSize s))
           = Some (confidence s))
   \<and> (\<forall>s \<in> set (endpoint_signals now ps).
         5000 \<le> es_totalSize s
         \<and> es_confidence s =
             (if es_traderCount s \<ge> 2 then 8 / 10
              else if es_totalSize s > 50000 then 6 / 10 else 4 / 10))
   \<and> (\<forall>e \<in> set (group_loop [] ps). 5000 \<le> group_totalSize (snd e) \<longrightarrow>
         (\<exists>s \<in> set (endpoint_loop now (group_loop [] ps)).
            es_id s = fst e \<and> es_totalSize s = group_totalSize (snd e)
            \<and> es_traderCount s = group_traderCount (snd e)))
   \<and> endpoint_signals now ps
       = take 20 (sort_key (\<lambda>s. - es_totalSize s) (endpoint_loop now (group_loop [] ps)))
   \<and> sorted (map (\<lambda>s. - es_totalSize s) (endpoint_signals now ps))
   \<and> (length (endpoint_loop now (group_loop [] ps)) \<le> 20 \<longrightarrow>
         set (endpoint_signals now ps) = set (endpoint_loop now (group_loop [] ps)))"
proof -
  note t = emitted_confidence_table [OF assms]
  have a: "map_option (tier_value cfg) (tier_table (group_traderCount g) (group_totalSize g))
      = Some (confidence s)" if "signal_for cfg now existing (key, g) = Some s" for s
    using signal_for_confidence [OF that] by (simp add: t)
  have b: "signal_for cfg now existing (key, g) = None"
    if "tier_table (group_traderCount g) (group_totalSize g) = None"
    using that signal_for_dropped [of cfg g now existing key] by (simp add: t)
  have c: "map_option (tier_value cfg) (tier_table (traderCount s) (totalSize s))
      = Some (confidence s)" if "s \<in> set (newSignals_of cfg now existing ps)" for s
    using newSignals_confidence [OF that] by (simp add: t)
  have d: "5000 \<le> es_totalSize s
         \<and> es_confidence s =
             (if es_traderCount s \<ge> 2 then 8 / 10
              else if es_totalSize s > 50000 then 6 / 10 else 4 / 10)"
    if "s \<in> set (endpoint_signals now ps)" for s
  proof -
    from that endpoint_signals_subset
    have "s \<in> set (endpoint_loop now (group_loop [] ps))" by blast
    then obtain e where "endpoint_signal_for now e = Some s"
      by (auto simp: endpoint_loop_mem)
    then show ?thesis
      using endpoint_signal_for_fields [of now "fst e" "snd e" s]
      by (simp add: confidence_endpoint_def)
  qed
  have e: "\<exists>s \<in> set (endpoint_loop now (group_loop [] ps)).
            es_id s = fst e \<and> es_totalSize s = group_totalSize (snd e)
            \<and> es_traderCount s = group_traderCount (snd e)"
    if "e \<in> set (group_loop [] ps)" "5000 \<le> group_totalSize (snd e)" for e
  proof -
    from endpoint_signal_for_emits [OF that(2), of now "fst e"]
    obtain s where s: "endpoint_signal_for now e = Some s" by auto
    then have "s \<in> set (endpoint_loop now (group_loop [] ps))"
      using that(1) by (auto simp: endpoint_loop_mem)
    then show ?thesis
      using endpoint_signal_for_fields [of now "fst e" "snd e" s] s by auto
  qed
  have f: "endpoint_signals now ps
       = take 20 (sort_key (\<lambda>s. - es_totalSize s) (endpoint_loop now (group_loop [] ps)))"
    by (simp add: endpoint_signals_def sort_by_totalSize_def)
  show ?thesis
    using t a b c d e f endpoint_signals_sorted [of now ps] endpoint_signals_all [of now ps]
    by blast
qed

theorem tier_tables_witness:
  "0 < low SIGNAL_CONFIG \<and> low SIGNAL_CONFIG \<le> medium SIGNAL_CONFIG
   \<and> low SIGNAL_CONFIG \<le> high SIGNAL_CONFIG
   \<and> emitted_confidence SIGNAL_CONFIG 2 55000 = Some (6 / 10)
   \<and> map confidence (newSignals_of SIGNAL_CONFIG 0 [] (gather_positions both_hold FOLLOW_LIST))
       = [6 / 10]
   \<and> tier_table 1 6000 = None
   \<and> signal_for SIGNAL_CONFIG 0 []
        (''c1-Yes'', two_traders\<lparr>positions := [open_position ''kch123'' kch123 6000]\<rparr>) = None
   \<and> map es_confidence (endpoint_signals 0 (gather_positions both_hold FOLLOW_LIST)) = [8 / 10]
   \<and> map es_totalSize (endpoint_signals 0 (gather_positions both_hold FOLLOW_LIST)) = [55000]
   \<and> length (endpoint_loop 0 (group_loop [] (gather_positions both_hold FOLLOW_LIST))) \<le> 20"
proof -
  let ?small = "two_traders\<lparr>positions := [open_position ''kch123'' kch123 6000]\<rparr>"
  have h: "0 < low SIGNAL_CONFIG" "low SIGNAL_CONFIG \<le> medium SIGNAL_CONFIG"
    "low SIGNAL_CONFIG \<le> high SIGNAL_CONFIG"
    by (simp_all add: SIGNAL_CONFIG_def)
  have m: "group_totalSize ?small = 6000 \<and> group_traderCount ?small = 1"
    by (simp add: group_totalSize_def group_traderCount_def open_position_def or_real_def)
  have t: "tier_table 2 55000 = Some Medium" "tier_table 1 6000 = None"
    by (simp_all add: tier_table_def)
  have l: "length (endpoint_loop 0 (group_loop [] (gather_positions both_hold FOLLOW_LIST))) \<le> 20"
    unfolding gathered_both two_traders_grouped by (simp split: option.splits)
  have e: "emitted_confidence SIGNAL_CONFIG 2 55000 = Some (6 / 10)"
    using tier_tables [OF h, of 2 55000 0 "[]" "''c1-Yes''" two_traders
        "gather_positions both_hold FOLLOW_LIST"] t
    by (simp add: SIGNAL_CONFIG_def)
  have n: "signal_for SIGNAL_CONFIG 0 [] (''c1-Yes'', ?small) = None"
    using tier_tables [OF h, of 1 6000 0 "[]" "''c1-Yes''" ?small
        "gather_positions both_hold FOLLOW_LIST"] t m
    by simp
  show ?thesis
    using h e n t l both_hold_evaluated by (simp add: handler_signals_def)
qed

text \<open>
  Claim C9. Saving the signal history keeps its first 500 entries and saving the
  activity history its first 1000; new entries are put in front, so these are the most
  recent ones. The history a run of the generator consults for the 24-hour suppression
  is what the previous run saved: at most 500 signals.
\<close>

theorem histories_bounded:
  "loadSignals (saveSignals signals) = take 500 signals
   \<and> length (loadSignals (saveSignals signals)) \<le> 500
   \<and> loadSignals (snd (generateSignals scfg now ps file))
       = take 500 (fst (generateSignals scfg now ps file) @ loadSignals file)
   \<and> length (loadSignals (snd (generateSignals scfg now ps file))) \<le> 500
   \<and> fst (generateSignals scfg now' ps' (snd (generateSignals scfg now ps file)))
       = newSignals_of scfg now'
           (take 500 (fst (generateSignals scfg now ps file) @ loadSignals file)) ps'
   \<and> loadActivity (saveActivity activity) = take 1000 activity
   \<and> length (loadActivity (saveActivity activity)) \<le> 1000
   \<and> (\<exists>news. loadActivity (snd (runOnce cfg polls files))
          = take 1000 (news @ loadActivity (snd files)))
   \<and> length (loadActivity (snd (runOnce cfg polls files))) \<le> 1000"
proof -
  obtain news where n: "snd (poll_loop cfg polls (loadState (fst files)) (loadActivity (snd files)))
      = news @ loadActivity (snd files)"
    using poll_loop_prepends by blast
  have r: "loadActivity (snd (runOnce cfg polls files)) = take 1000 (news @ loadActivity (snd files))"
  proof (cases "poll_loop cfg polls (loadState (fst files)) (loadActivity (snd files))")
    case (Pair st acts)
    with n have "acts = news @ loadActivity (snd files)" by simp
    with Pair show ?thesis
      by (simp add: runOnce_def saveActivity_def loadActivity_def)
  qed
  have g: "loadSignals (snd (generateSignals scfg now ps file))
       = take 500 (fst (generateSignals scfg now ps file) @ loadSignals file)"
    by (simp add: generateSignals_def Let_def saveSignals_def loadSignals_def)
  have g2: "fst (generateSignals scfg now' ps' f) = newSignals_of scfg now' (loadSignals f) ps'" for f
    by (simp add: generateSignals_def Let_def)
  have "\<exists>news. loadActivity (snd (runOnce cfg polls files))
          = take 1000 (news @ loadActivity (snd files))"
    using r by blast
  moreover have "length (loadActivity (snd (runOnce cfg polls files))) \<le> 1000"
    by (simp add: r)
  moreover have "length (loadSignals (snd (generateSignals scfg now ps file))) \<le> 500"
    by (simp add: g)
  ultimately show ?thesis
    using g g2 [of "snd (generateSignals scfg now ps file)"]
    by (simp add: saveSignals_def loadSignals_def saveActivity_def loadActivity_def)
qed

end
